theory Spec2Isabelle
  imports Main "HOL-Library.Word"
begin

unbundle bit_operations_syntax

section \<open>The USB flash command of particle-cli\<close>

text \<open>
  A shallow embedding of \<^verbatim>\<open>FlashCommand\<close> (\<^verbatim>\<open>flash\<close>, \<^verbatim>\<open>flashDfu\<close>,
  \<^verbatim>\<open>_dropModuleInfo\<close>). The promise chain of \<^verbatim>\<open>flashDfu\<close> is a chain of steps
  over an explicit state; a thrown error or a rejected promise is the \<open>Inl\<close> branch of
  the step's result. The collaborators that live in other modules (\<^verbatim>\<open>dfu\<close>,
  \<^verbatim>\<open>deviceSpecs\<close>, the module parser, the device directory, the \<^verbatim>\<open>temp\<close> library)
  are parameters, collected in the record \<open>env\<close>.
\<close>

subsection \<open>JavaScript values\<close>

text \<open>
  A variable that holds a string or \<^verbatim>\<open>undefined\<close> is a \<open>string option\<close>.
  \<open>truthy v\<close> is the truth value JavaScript gives it in \<^verbatim>\<open>if (v)\<close>,
  \<^verbatim>\<open>!v\<close> and \<^verbatim>\<open>v && w\<close>: \<^verbatim>\<open>undefined\<close> and the empty string are false.
\<close>

definition truthy :: "string option \<Rightarrow> bool" where
  "truthy v = (case v of None \<Rightarrow> False | Some x \<Rightarrow> x \<noteq> [])"

subsection \<open>Data\<close>

type_synonym bytes = "8 word list"

text \<open>What a path of the file system holds.\<close>

datatype node = File bytes | Directory

text \<open>
  Modelled from the spec: the enumeration \<^verbatim>\<open>ModuleInfo.FunctionType\<close> of the module
  parser is not part of the sources; the spec gives \<^verbatim>\<open>moduleFunction\<close> the values
  MONO_FIRMWARE, SYSTEM_PART, USER_PART, RADIO_STACK and OTHER. \<open>OTHER n\<close> is any
  other numeric code \<open>n\<close>, the \<^verbatim>\<open>default\<close> arm of the switch.
\<close>

datatype function_type = MONO_FIRMWARE | SYSTEM_PART | USER_PART | RADIO_STACK | OTHER nat

text \<open>
  The descriptor the parser returns, with the fields \<^verbatim>\<open>flashDfu\<close> reads:
  \<^verbatim>\<open>info.prefixInfo\<close>, \<^verbatim>\<open>info.suffixInfo.suffixSize\<close> and \<^verbatim>\<open>info.crc.ok\<close>.
  \<^verbatim>\<open>moduleStartAddy\<close> is the start address as the parser renders it, a string of
  hexadecimal digits without prefix; \<^verbatim>\<open>moduleFlags\<close> is an operand of the 32-bit
  \<^verbatim>\<open>&\<close>.
\<close>

record prefix_info =
  platformID :: nat
  moduleFunction :: function_type
  moduleIndex :: nat
  moduleStartAddy :: string
  moduleFlags :: "32 word"

record suffix_info =
  suffixSize :: nat

record crc_info =
  ok :: bool

record module_info =
  prefixInfo :: prefix_info
  suffixInfo :: suffix_info
  crc :: crc_info

text \<open>
  An entry of the segment table (\<^verbatim>\<open>segment.specs\<close>, of which only \<^verbatim>\<open>address\<close> is
  read), the device specification \<^verbatim>\<open>deviceSpecs[dfu.dfuId]\<close> (of which
  \<^verbatim>\<open>productId\<close> and \<^verbatim>\<open>systemFirmwareOne\<close> are read) and the object that
  \<^verbatim>\<open>dfu._validateSegmentSpecs\<close> returns (\<^verbatim>\<open>segment.error\<close>, \<^verbatim>\<open>segment.specs\<close>).
\<close>

record segment_info =
  address :: "string option"

record device_specs =
  productId :: nat
  systemFirmwareOne :: "segment_info option"

record segment_result =
  segment_error :: "string option"
  segment_specs :: "segment_info option"

text \<open>The object \<^verbatim>\<open>getDevice\<close> resolves to; \<^verbatim>\<open>deviceInfo.id\<close> is read.\<close>

record device_info =
  device_id :: "string option"

text \<open>
  A call of the device-write primitive,
  \<^verbatim>\<open>dfu.writeDfu(alt, finalBinary, destAddress, leave, targetDevice)\<close>, with its
  arguments in the order of the call.
\<close>

datatype dfu_call = WriteDfu nat "string option" "string option" bool "string option"

subsection \<open>Errors\<close>

text \<open>The collaborator whose promise was rejected or whose call threw.\<close>

datatype collaborator =
  DfuUtilCheck | DfuDiscovery | ModuleParser | TempFile | DfuWrite
  | DeviceDirectory | CloudFlash | SerialFlash

text \<open>
  One constructor for each place where the code throws or rejects:
  \<^item> \<open>Rejected\<close>: \<^verbatim>\<open>Promise.reject()\<close> of \<^verbatim>\<open>flash\<close>;
  \<^item> \<open>External c msg\<close>: the failure of a collaborator;
  \<^item> \<open>DeviceLookupFailed cause\<close>: \<^verbatim>\<open>VError(cause, 'Device ID lookup failed')\<close>,
    without cause when the directory returns no id;
  \<^item> \<open>FileNotFound\<close>: \<^verbatim>\<open>'file does not exist and no known app found.'\<close>;
  \<^item> \<open>IsDirectory\<close>: \<^verbatim>\<open>'You cannot flash a directory over USB'\<close>;
  \<^item> \<open>CouldNotParse binary cause\<close>: \<^verbatim>\<open>VError(cause, `Could not parse ${binary}`)\<close>;
  \<^item> \<open>CRCIsInvalid\<close>: \<^verbatim>\<open>'CRC is invalid, use --force to override'\<close>;
  \<^item> \<open>IncorrectPlatformId expected parsed\<close>: \<^verbatim>\<open>'Incorrect platform id (expected ..., parsed ...)'\<close>;
  \<^item> \<open>UnknownModuleFunctionCode n\<close>: \<^verbatim>\<open>'unknown module function ' + n\<close>;
  \<^item> \<open>TypeError what\<close>: a property read on \<^verbatim>\<open>undefined\<close>;
  \<^item> \<open>SegmentError msg\<close>: \<^verbatim>\<open>'dfu.write: ' + segment.error\<close>;
  \<^item> \<open>UnknownDestinationError\<close>: \<^verbatim>\<open>'Unknown destination'\<close>;
  \<^item> \<open>ErrorWritingFirmware cause\<close>: \<^verbatim>\<open>VError(cause, 'Error writing firmware')\<close>.
\<close>

datatype error =
    Rejected
  | External collaborator string
  | DeviceLookupFailed "error option"
  | FileNotFound
  | IsDirectory
  | CouldNotParse "string option" error
  | CRCIsInvalid
  | IncorrectPlatformId nat nat
  | UnknownModuleFunctionCode nat
  | TypeError string
  | SegmentError string
  | UnknownDestinationError
  | ErrorWritingFirmware error

subsection \<open>The collaborators\<close>

text \<open>
  The functions, tables and constants of other modules that the command uses:
  \<^item> \<open>isDfuUtilInstalled\<close>: the rejection of \<^verbatim>\<open>dfu.isDfuUtilInstalled()\<close>, \<open>None\<close>
    when the tool chain is there;
  \<^item> \<open>findCompatibleDFU\<close>: \<^verbatim>\<open>dfu.findCompatibleDFU({ deviceId })\<close>, a rejection or the
    handle of the device;
  \<^item> \<open>checkKnownApp\<close>: \<^verbatim>\<open>dfu.checkKnownApp(binary)\<close>;
  \<^item> \<open>parseFile\<close>: \<^verbatim>\<open>new ModuleParser().parseFile(binary)\<close>, a rejection or the
    descriptor;
  \<^item> \<open>deviceSpecs\<close> and \<open>dfuId\<close>: the table \<^verbatim>\<open>deviceSpecs\<close> and \<^verbatim>\<open>dfu.dfuId\<close>;
  \<^item> \<open>validateSegmentSpecs\<close>: \<^verbatim>\<open>dfu._validateSegmentSpecs(destSegment)\<close>;
  \<^item> \<open>writeDfu\<close>: the rejection of \<^verbatim>\<open>dfu.writeDfu(...)\<close>, \<open>None\<close> when it resolves;
  \<^item> \<open>HEADER_SIZE\<close> and \<open>DROP_MODULE_INFO\<close>: \<^verbatim>\<open>ModuleInfo.HEADER_SIZE\<close> and
    \<^verbatim>\<open>ModuleInfo.Flags.DROP_MODULE_INFO\<close>;
  \<^item> \<open>tempPath\<close> and \<open>tempWriteError\<close>: the path \<^verbatim>\<open>temp.createWriteStream\<close> opens
    and the \<^verbatim>\<open>'error'\<close> event of the stream, if any;
  \<^item> \<open>isDeviceId\<close>, \<open>getDevice\<close>: \<^verbatim>\<open>device-util\<close>;
  \<^item> \<open>cloudFlashDevice\<close>, \<open>serialFlashDevice\<close>: the rejections of
    \<^verbatim>\<open>CloudCommands.flashDevice\<close> and \<^verbatim>\<open>SerialCommands.flashDevice\<close>.
\<close>

record env =
  isDfuUtilInstalled :: "string option"
  findCompatibleDFU :: "string option \<Rightarrow> string + string"
  checkKnownApp :: "string option \<Rightarrow> string option"
  parseFile :: "string option \<Rightarrow> string + module_info"
  deviceSpecs :: "string \<rightharpoonup> device_specs"
  dfuId :: string
  validateSegmentSpecs :: "string option \<Rightarrow> segment_result"
  writeDfu :: "dfu_call \<Rightarrow> string option"
  HEADER_SIZE :: nat
  DROP_MODULE_INFO :: "32 word"
  tempPath :: string
  tempWriteError :: "string option"
  isDeviceId :: "string option \<Rightarrow> bool"
  getDevice :: "string option \<Rightarrow> string + device_info option"
  cloudFlashDevice :: "string option \<Rightarrow> string list \<Rightarrow> string option \<Rightarrow> bool \<Rightarrow> string option"
  serialFlashDevice :: "string option \<Rightarrow> string option \<Rightarrow> bool \<Rightarrow> string option"

subsection \<open>State\<close>

text \<open>
  The variables of one call of \<^verbatim>\<open>flashDfu\<close> (its parameters \<^verbatim>\<open>device\<close>,
  \<^verbatim>\<open>binary\<close>, \<^verbatim>\<open>factory\<close>, \<^verbatim>\<open>force\<close>, \<^verbatim>\<open>requestLeave\<close> and its locals
  \<^verbatim>\<open>specs\<close>, \<^verbatim>\<open>destSegment\<close>, \<^verbatim>\<open>destAddress\<close>, \<^verbatim>\<open>flashingKnownApp\<close>,
  \<^verbatim>\<open>targetDevice\<close>, which the callbacks of the chain share and assign), and the
  world outside: the files on \<open>disk\<close>, the lines written by \<^verbatim>\<open>console.log\<close>, and
  the calls of the device-write primitive made so far. \<open>targetDevice = None\<close> is the
  initial \<^verbatim>\<open>{}\<close>.
\<close>

record state =
  device :: "string option"
  binary :: "string option"
  factory :: bool
  force :: bool
  requestLeave :: "bool option"
  specs :: "device_specs option"
  destSegment :: "string option"
  destAddress :: "string option"
  flashingKnownApp :: bool
  targetDevice :: "string option"
  disk :: "string \<rightharpoonup> node"
  console :: "string list"
  dfuWrites :: "dfu_call list"

type_synonym 'a result = "(error + 'a) \<times> state"

text \<open>\<^verbatim>\<open>promise.then(f)\<close>: \<open>f\<close> runs on the value of a resolved promise only.\<close>

definition andThen :: "'a result \<Rightarrow> ('a \<Rightarrow> state \<Rightarrow> 'b result) \<Rightarrow> 'b result" where
  "andThen r f = (case r of (Inl e, s) \<Rightarrow> (Inl e, s) | (Inr x, s) \<Rightarrow> f x s)"

subsection \<open>The command\<close>

definition systemModuleIndexToString :: "nat \<Rightarrow> string option" where
  "systemModuleIndexToString i =
     (if i = 1 then Some ''systemFirmwareOne''
      else if i = 2 then Some ''systemFirmwareTwo''
      else if i = 3 then Some ''systemFirmwareThree''
      else None)"

text \<open>
  \<^verbatim>\<open>fs.statSync(binary)\<close> followed by \<^verbatim>\<open>stats.isFile()\<close>: \<open>None\<close> when
  \<^verbatim>\<open>statSync\<close> throws (no such path, or no path at all).
\<close>

definition statSync :: "state \<Rightarrow> string option \<Rightarrow> bool option" where
  "statSync s p =
     (case p of
        None \<Rightarrow> None
      | Some f \<Rightarrow>
          (case disk s f of
             None \<Rightarrow> None
           | Some n \<Rightarrow> Some (case n of File _ \<Rightarrow> True | Directory \<Rightarrow> False)))"

text \<open>
  The third callback of the chain: the literal path first, the known applications only
  when \<^verbatim>\<open>statSync\<close> throws.
\<close>

definition findFile :: "env \<Rightarrow> state \<Rightarrow> unit result" where
  "findFile e s =
     (case statSync s (binary s) of
        None \<Rightarrow>
          (let s1 = s\<lparr>binary := checkKnownApp e (binary s)\<rparr> in
           if binary s1 = None then (Inl FileNotFound, s1)
           else (Inr (), s1\<lparr>flashingKnownApp := True\<rparr>))
      | Some isFile \<Rightarrow>
          if \<not> isFile then (Inl IsDirectory, s) else (Inr (), s))"

text \<open>
  \<^verbatim>\<open>_dropModuleInfo(binary)\<close>: the bytes of \<^verbatim>\<open>binary\<close> from offset
  \<^verbatim>\<open>HEADER_SIZE\<close> on are piped into a new temporary file, whose path is the result.
  An \<^verbatim>\<open>'error'\<close> event of the write stream rejects. The last case (nothing to read
  at \<^verbatim>\<open>binary\<close>) does not arise inside \<^verbatim>\<open>flashDfu\<close>, which has checked the file.
\<close>

definition dropModuleInfo :: "env \<Rightarrow> string option \<Rightarrow> state \<Rightarrow> (string option) result" where
  "dropModuleInfo e b s =
     (case (case b of None \<Rightarrow> None | Some f \<Rightarrow> disk s f) of
        Some (File bs) \<Rightarrow>
          (case tempWriteError e of
             Some msg \<Rightarrow> (Inl (External TempFile msg), s)
           | None \<Rightarrow>
               (Inr (Some (tempPath e)),
                s\<lparr>disk := (disk s)(tempPath e \<mapsto> File (drop (HEADER_SIZE e) bs))\<rparr>))
      | _ \<Rightarrow> (Inl (External TempFile ''cannot read the binary''), s))"

text \<open>The \<^verbatim>\<open>switch\<close> on \<^verbatim>\<open>info.prefixInfo.moduleFunction\<close>.\<close>

definition selectSegment :: "module_info \<Rightarrow> device_specs \<Rightarrow> state \<Rightarrow> unit result" where
  "selectSegment info sp s =
     (case moduleFunction (prefixInfo info) of
        MONO_FIRMWARE \<Rightarrow>
          (Inr (), s\<lparr>destSegment :=
                      (if systemFirmwareOne sp \<noteq> None then Some ''systemFirmwareOne''
                       else destSegment s)\<rparr>)
      | SYSTEM_PART \<Rightarrow>
          (Inr (), s\<lparr>destSegment := systemModuleIndexToString (moduleIndex (prefixInfo info)),
                     destAddress := Some (''0x0'' @ moduleStartAddy (prefixInfo info))\<rparr>)
      | USER_PART \<Rightarrow> (Inr (), s)
      | RADIO_STACK \<Rightarrow>
          (Inr (), s\<lparr>destSegment := Some ''radioStack'',
                     destAddress := Some (''0x0'' @ moduleStartAddy (prefixInfo info))\<rparr>)
      | OTHER n \<Rightarrow>
          if \<not> force s then (Inl (UnknownModuleFunctionCode n), s) else (Inr (), s))"

text \<open>
  The end of the descriptor callback: the binary to write is a stripped copy when the
  descriptor has the flag \<^verbatim>\<open>DROP_MODULE_INFO\<close>, and \<^verbatim>\<open>binary\<close> otherwise.
\<close>

definition chooseBinary :: "env \<Rightarrow> module_info \<Rightarrow> state \<Rightarrow> (string option) result" where
  "chooseBinary e info s =
     (if moduleFlags (prefixInfo info) AND DROP_MODULE_INFO e \<noteq> 0 then
        dropModuleInfo e (binary s) s
      else (Inr (binary s), s))"

text \<open>
  The callback that receives the parsed descriptor. Its value is the binary to write:
  \<^verbatim>\<open>undefined\<close> (\<open>None\<close>) after the bare \<^verbatim>\<open>return\<close> of the unverifiable case.
\<close>

definition inspectInfo :: "env \<Rightarrow> module_info \<Rightarrow> state \<Rightarrow> (string option) result" where
  "inspectInfo e info s =
     (if suffixSize (suffixInfo info) = 65535 then
        (Inr None, s\<lparr>console := console s @ [''warn: unable to verify binary info'']\<rparr>)
      else if \<not> ok (crc info) \<and> \<not> force s then (Inl CRCIsInvalid, s)
      else
        (let s1 = s\<lparr>specs := deviceSpecs e (dfuId e)\<rparr> in
         case specs s1 of
           None \<Rightarrow> (Inl (TypeError ''specs.productId''), s1)
         | Some sp \<Rightarrow>
             if platformID (prefixInfo info) \<noteq> productId sp \<and> \<not> force s1 then
               (Inl (IncorrectPlatformId (productId sp) (platformID (prefixInfo info))), s1)
             else
               andThen (selectSegment info sp s1) (\<lambda>_. chooseBinary e info)))"

text \<open>The fourth callback: the default segment, then the descriptor unless a known app is flashed.\<close>

definition parseBinary :: "env \<Rightarrow> state \<Rightarrow> (string option) result" where
  "parseBinary e s0 =
     (let s = s0\<lparr>destSegment := Some (if factory s0 then ''factoryReset'' else ''userFirmware'')\<rparr> in
      if flashingKnownApp s then (Inr (binary s), s)
      else
        (case parseFile e (binary s) of
           Inl msg \<Rightarrow> (Inl (CouldNotParse (binary s) (External ModuleParser msg)), s)
         | Inr info \<Rightarrow> inspectInfo e info s))"

text \<open>
  The segment-table lookup at the head of the last callback. \<^verbatim>\<open>if (segment.error)\<close>
  tests the truth value of the error: only an error that is neither \<^verbatim>\<open>undefined\<close>
  nor empty is thrown.
\<close>

definition lookupAddress :: "env \<Rightarrow> state \<Rightarrow> unit result" where
  "lookupAddress e s =
     (if \<not> truthy (destAddress s) \<and> truthy (destSegment s) then
        (let segment = validateSegmentSpecs e (destSegment s) in
         case (if truthy (segment_error segment) then segment_error segment else None) of
           Some msg \<Rightarrow> (Inl (SegmentError msg), s)
         | None \<Rightarrow>
             (case segment_specs segment of
                None \<Rightarrow> (Inl (TypeError ''segment.specs.address''), s)
              | Some sp \<Rightarrow> (Inr (), s\<lparr>destAddress := address sp\<rparr>)))
      else (Inr (), s))"

text \<open>
  \<^verbatim>\<open>requestLeave !== undefined ? requestLeave : (destSegment === 'userFirmware')\<close>
\<close>

definition leaveOf :: "state \<Rightarrow> bool" where
  "leaveOf s =
     (case requestLeave s of
        Some b \<Rightarrow> b
      | None \<Rightarrow> destSegment s = Some ''userFirmware'')"

text \<open>The last callback: resolve the address, then call the device-write primitive.\<close>

definition writeFirmware :: "env \<Rightarrow> string option \<Rightarrow> state \<Rightarrow> unit result" where
  "writeFirmware e finalBinary s =
     andThen (lookupAddress e s)
       (\<lambda>_ s1.
          if \<not> truthy (destAddress s1) then (Inl UnknownDestinationError, s1)
          else
            (let alt = 0;
                 leave = leaveOf s1;
                 call = WriteDfu alt finalBinary (destAddress s1) leave (targetDevice s1)
             in (case writeDfu e call of
                   Some msg \<Rightarrow> Inl (External DfuWrite msg)
                 | None \<Rightarrow> Inr (),
                 s1\<lparr>dfuWrites := dfuWrites s1 @ [call]\<rparr>)))"

text \<open>The final \<^verbatim>\<open>catch\<close> of the chain: \<^verbatim>\<open>VError(err, 'Error writing firmware')\<close>.\<close>

definition catchWrap :: "'a result \<Rightarrow> 'a result" where
  "catchWrap r =
     (case r of
        (Inl err, s) \<Rightarrow> (Inl (ErrorWritingFirmware err), s)
      | (Inr x, s) \<Rightarrow> (Inr x, s))"

text \<open>The first two callbacks: the tool chain, then the device in DFU mode.\<close>

definition checkDfuUtil :: "env \<Rightarrow> state \<Rightarrow> unit result" where
  "checkDfuUtil e s =
     (case isDfuUtilInstalled e of
        Some msg \<Rightarrow> (Inl (External DfuUtilCheck msg), s)
      | None \<Rightarrow> (Inr (), s))"

definition findDevice :: "env \<Rightarrow> state \<Rightarrow> unit result" where
  "findDevice e s =
     (case findCompatibleDFU e (device s) of
        Inl msg \<Rightarrow> (Inl (External DfuDiscovery msg), s)
      | Inr d \<Rightarrow> (Inr (), s\<lparr>targetDevice := Some d\<rparr>))"

text \<open>
  \<^verbatim>\<open>flashDfu({ device, binary, factory, force, requestLeave })\<close>: the arguments are
  the fields of that name of the state passed in; the locals are initialised here, and
  the chain starts from \<^verbatim>\<open>Promise.resolve()\<close>.
\<close>

definition flashDfu :: "env \<Rightarrow> state \<Rightarrow> unit result" where
  "flashDfu e s0 =
     (let s = s0\<lparr>specs := None, destSegment := None, destAddress := None,
                 flashingKnownApp := False, targetDevice := None\<rparr>
      in catchWrap
           (andThen
              (andThen
                 (andThen
                    (andThen
                       (andThen (Inr (), s) (\<lambda>_. checkDfuUtil e))
                       (\<lambda>_. findDevice e))
                    (\<lambda>_. findFile e))
                 (\<lambda>_. parseBinary e))
              (writeFirmware e)))"

text \<open>
  The options object of \<^verbatim>\<open>flash\<close>; \<open>factory_opt\<close> and \<open>force_opt\<close> are its
  \<^verbatim>\<open>factory\<close> and \<^verbatim>\<open>force\<close>.
\<close>

record flash_options =
  usb :: bool
  serial :: bool
  factory_opt :: bool
  force_opt :: bool
  target :: "string option"
  port :: "string option"
  yes :: bool

text \<open>
  The lookup of the device id in \<^verbatim>\<open>flash\<close>: the device to pass on, or the error
  thrown.
\<close>

definition lookupDeviceId :: "env \<Rightarrow> string option \<Rightarrow> error + string option" where
  "lookupDeviceId e dev =
     (if truthy dev \<and> \<not> isDeviceId e dev then
        (case getDevice e dev of
           Inl msg \<Rightarrow> Inl (DeviceLookupFailed (Some (External DeviceDirectory msg)))
         | Inr deviceInfo \<Rightarrow>
             (case deviceInfo of
                None \<Rightarrow> Inl (DeviceLookupFailed None)
              | Some di \<Rightarrow>
                  if truthy (device_id di) then Inr (device_id di)
                  else Inl (DeviceLookupFailed None)))
      else Inr dev)"

text \<open>
  \<^verbatim>\<open>flash(device, binary, files, { usb, serial, factory, force, target, port, yes })\<close>.
  \<^verbatim>\<open>flashDfu\<close> is called without \<^verbatim>\<open>requestLeave\<close>.
\<close>

definition flash ::
  "env \<Rightarrow> string option \<Rightarrow> string option \<Rightarrow> string list \<Rightarrow> flash_options \<Rightarrow> state \<Rightarrow> unit result"
where
  "flash e dev bin fls opts s =
     (if \<not> truthy dev \<and> \<not> truthy bin then (Inl Rejected, s)
      else
        andThen
          (if usb opts then
             (let bin1 = (case fls of [] \<Rightarrow> bin | f # _ \<Rightarrow> Some f);
                  dev1 = (case fls of [] \<Rightarrow> None | _ # _ \<Rightarrow> dev)
              in case lookupDeviceId e dev1 of
                   Inl err \<Rightarrow> (Inl err, s)
                 | Inr dev2 \<Rightarrow>
                     flashDfu e (s\<lparr>device := dev2, binary := bin1,
                                  factory := factory_opt opts, force := force_opt opts,
                                  requestLeave := None\<rparr>))
           else if serial opts then
             (case serialFlashDevice e bin (port opts) (yes opts) of
                Some msg \<Rightarrow> (Inl (External SerialFlash msg), s)
              | None \<Rightarrow> (Inr (), s))
           else
             (case cloudFlashDevice e dev fls (target opts) (yes opts) of
                Some msg \<Rightarrow> (Inl (External CloudFlash msg), s)
              | None \<Rightarrow> (Inr (), s)))
          (\<lambda>_ s'. (Inr (), s'\<lparr>console := console s' @ [CHR 0x0A # ''Flash success!'']\<rparr>)))"


subsection \<open>Notions of the specification\<close>

text \<open>
  The number a string of hexadecimal digits denotes, and the address an
  \<^verbatim>\<open>0x\<close>-prefixed hex string denotes. They are used to say that the address
  built from a descriptor is the descriptor's start address in hex form.
\<close>

fun digitIndex :: "char \<Rightarrow> string \<Rightarrow> nat \<Rightarrow> nat option" where
  "digitIndex c [] n = None"
| "digitIndex c (d # ds) n = (if c = d then Some n else digitIndex c ds (Suc n))"

definition hexDigit :: "char \<Rightarrow> nat option" where
  "hexDigit c = digitIndex c ''0123456789abcdef'' 0"

fun hexValue :: "nat \<Rightarrow> string \<Rightarrow> nat option" where
  "hexValue acc [] = Some acc"
| "hexValue acc (c # cs) =
     (case hexDigit c of None \<Rightarrow> None | Some d \<Rightarrow> hexValue (16 * acc + d) cs)"

definition hexAddress :: "string \<Rightarrow> nat option" where
  "hexAddress a = (if take 2 a = ''0x'' then hexValue 0 (drop 2 a) else None)"

text \<open>
  The failures the specification calls UnknownDestination (section 4.3, steps 5 and 6):
  the error thrown when the segment lookup reports an error, and the error thrown when
  no address is left after the lookup.
\<close>

definition isUnknownDestination :: "error \<Rightarrow> bool" where
  "isUnknownDestination err =
     (case err of SegmentError _ \<Rightarrow> True | UnknownDestinationError \<Rightarrow> True | _ \<Rightarrow> False)"

text \<open>
  The failures that \<^verbatim>\<open>force\<close> downgrades according to the specification (section
  7): CRCInvalid, PlatformMismatch and UnknownModuleFunction.
\<close>

definition suppressible :: "error \<Rightarrow> bool" where
  "suppressible err =
     (case err of
        CRCIsInvalid \<Rightarrow> True
      | IncorrectPlatformId _ _ \<Rightarrow> True
      | UnknownModuleFunctionCode _ \<Rightarrow> True
      | _ \<Rightarrow> False)"

subsection \<open>Notions used in the proofs\<close>

text \<open>
  Two states of the same call of \<^verbatim>\<open>flashDfu\<close>, with no call of the device-write
  primitive in between: the arguments that are never assigned and the calls made are
  the same.
\<close>

definition sameCall :: "state \<Rightarrow> state \<Rightarrow> bool" where
  "sameCall s s' =
     (device s' = device s \<and> factory s' = factory s \<and> force s' = force s
      \<and> requestLeave s' = requestLeave s \<and> dfuWrites s' = dfuWrites s)"

text \<open>A result with the \<^verbatim>\<open>force\<close> argument of its state replaced.\<close>

definition withForce :: "bool \<Rightarrow> 'a result \<Rightarrow> 'a result" where
  "withForce b r = (fst r, (snd r)\<lparr>force := b\<rparr>)"

subsection \<open>Example inputs\<close>

text \<open>
  A device with product id 6 in DFU mode, a firmware file on disk, and the descriptor of
  a user module with a valid CRC; the examples below vary them.
\<close>

definition example_info :: module_info where
  "example_info =
     \<lparr>prefixInfo = \<lparr>platformID = 6, moduleFunction = USER_PART, moduleIndex = 1,
                     moduleStartAddy = ''80a0000'', moduleFlags = 0\<rparr>,
      suffixInfo = \<lparr>suffixSize = 36\<rparr>,
      crc = \<lparr>ok = True\<rparr>\<rparr>"

definition example_env :: env where
  "example_env =
     \<lparr>isDfuUtilInstalled = None,
      findCompatibleDFU = (\<lambda>_. Inr ''2b04:d006''),
      checkKnownApp = (\<lambda>b. if b = Some ''tinker'' then Some ''binaries/photon_tinker.bin'' else None),
      parseFile = (\<lambda>b. if b = Some ''firmware.bin'' then Inr example_info else Inl ''not a module''),
      deviceSpecs = [''2b04:d006'' \<mapsto>
        \<lparr>productId = 6, systemFirmwareOne = Some \<lparr>address = Some ''0x08020000''\<rparr>\<rparr>],
      dfuId = ''2b04:d006'',
      validateSegmentSpecs =
        (\<lambda>seg. if seg = Some ''userFirmware''
                then \<lparr>segment_error = None, segment_specs = Some \<lparr>address = Some ''0x080A0000''\<rparr>\<rparr>
              else if seg = Some ''factoryReset''
                then \<lparr>segment_error = None, segment_specs = Some \<lparr>address = Some ''0x080E0000''\<rparr>\<rparr>
              else \<lparr>segment_error = Some ''segment has no specs'', segment_specs = None\<rparr>),
      writeDfu = (\<lambda>_. None),
      HEADER_SIZE = 2,
      DROP_MODULE_INFO = 1,
      tempPath = ''tmp/stripped.bin'',
      tempWriteError = None,
      isDeviceId = (\<lambda>d. d = Some ''0123456789abcdef01234567''),
      getDevice = (\<lambda>d. if d = Some ''my-photon''
                        then Inr (Some \<lparr>device_id = Some ''0123456789abcdef01234567''\<rparr>)
                        else Inl ''not found''),
      cloudFlashDevice = (\<lambda>_ _ _ _. None),
      serialFlashDevice = (\<lambda>_ _ _. None)\<rparr>"

definition example_state :: state where
  "example_state =
     \<lparr>device = None, binary = Some ''firmware.bin'', factory = False, force = False,
      requestLeave = None, specs = None, destSegment = None, destAddress = None,
      flashingKnownApp = False, targetDevice = None,
      disk = [''firmware.bin'' \<mapsto> File [1, 2, 3, 4, 5], ''projects'' \<mapsto> Directory],
      console = [], dfuWrites = []\<rparr>"

definition example_system_info :: "nat \<Rightarrow> module_info" where
  "example_system_info i =
     example_info\<lparr>prefixInfo := (prefixInfo example_info)
        \<lparr>moduleFunction := SYSTEM_PART, moduleIndex := i, moduleStartAddy := ''8020000''\<rparr>\<rparr>"

text \<open>
  Variations: a segment table without entries, a factory flash, a known application
  given by name, descriptors that cannot be verified, that are system parts or that have
  an invalid CRC, a segment table without factoryReset, forced calls, the options of a
  USB flash, and a file the parser rejects.
\<close>

definition example_no_segments :: env where
  "example_no_segments =
     example_env\<lparr>validateSegmentSpecs :=
       \<lambda>_. \<lparr>segment_error = Some ''segment has no specs'', segment_specs = None\<rparr>\<rparr>"

definition example_factory :: state where
  "example_factory = example_state\<lparr>factory := True\<rparr>"

definition example_known_app :: state where
  "example_known_app = example_state\<lparr>binary := Some ''tinker''\<rparr>"

definition example_unverifiable_info :: module_info where
  "example_unverifiable_info =
     example_info\<lparr>suffixInfo := \<lparr>suffixSize = 65535\<rparr>, crc := \<lparr>ok = False\<rparr>\<rparr>"

definition example_unverifiable :: env where
  "example_unverifiable = example_env\<lparr>parseFile := \<lambda>_. Inr example_unverifiable_info\<rparr>"

definition example_system_env :: "nat \<Rightarrow> env" where
  "example_system_env i = example_env\<lparr>parseFile := \<lambda>_. Inr (example_system_info i)\<rparr>"

definition example_corrupt_info :: module_info where
  "example_corrupt_info = example_info\<lparr>crc := \<lparr>ok = False\<rparr>\<rparr>"

definition example_corrupt :: env where
  "example_corrupt = example_env\<lparr>parseFile := \<lambda>_. Inr example_corrupt_info\<rparr>"

definition example_no_factory_reset :: env where
  "example_no_factory_reset =
     example_corrupt\<lparr>validateSegmentSpecs :=
       \<lambda>seg. if seg = Some ''userFirmware''
              then \<lparr>segment_error = None, segment_specs = Some \<lparr>address = Some ''0x080A0000''\<rparr>\<rparr>
              else \<lparr>segment_error = Some ''segment has no specs'', segment_specs = None\<rparr>\<rparr>"

definition example_forced :: state where
  "example_forced = example_state\<lparr>force := True\<rparr>"

definition example_forced_factory :: state where
  "example_forced_factory = example_state\<lparr>factory := True, force := True\<rparr>"

definition example_usb :: flash_options where
  "example_usb =
     \<lparr>usb = True, serial = False, factory_opt = False, force_opt = False,
      target = None, port = None, yes = False\<rparr>"

definition example_unparsable :: env where
  "example_unparsable = example_env\<lparr>parseFile := \<lambda>_. Inl ''not a module''\<rparr>"

text \<open>
  System parts whose suffix size is 65535, so that they cannot be verified, with the
  segment table of the examples and with a segment table without entries.
\<close>

definition example_sentinel_info :: "nat \<Rightarrow> module_info" where
  "example_sentinel_info i = (example_system_info i)\<lparr>suffixInfo := \<lparr>suffixSize = 65535\<rparr>\<rparr>"

definition example_sentinel :: "nat \<Rightarrow> env" where
  "example_sentinel i = example_env\<lparr>parseFile := \<lambda>_. Inr (example_sentinel_info i)\<rparr>"

definition example_sentinel_no_segments :: "nat \<Rightarrow> env" where
  "example_sentinel_no_segments i =
     example_no_segments\<lparr>parseFile := \<lambda>_. Inr (example_sentinel_info i)\<rparr>"

section \<open>Properties\<close>

subsection \<open>Auxiliary facts\<close>

text \<open>The definitions to unfold when a run is evaluated on an example.\<close>

lemmas flash_defs =
  flashDfu_def catchWrap_def andThen_def checkDfuUtil_def findDevice_def findFile_def
  statSync_def parseBinary_def inspectInfo_def selectSegment_def chooseBinary_def
  dropModuleInfo_def writeFirmware_def lookupAddress_def leaveOf_def truthy_def
  systemModuleIndexToString_def

lemmas example_defs = example_env_def example_state_def example_info_def

lemma truthy_simps [simp]:
  "truthy None = False"
  "truthy (Some x) = (x \<noteq> [])"
  by (simp_all add: truthy_def)

lemma andThen_simps [simp]:
  "andThen (Inl err, s) f = (Inl err, s)"
  "andThen (Inr x, s) f = f x s"
  by (simp_all add: andThen_def)

lemma catchWrap_simps [simp]:
  "catchWrap (Inl err, s) = (Inl (ErrorWritingFirmware err), s)"
  "catchWrap (Inr x, s) = (Inr x, s)"
  "snd (catchWrap r) = snd r"
  by (simp_all add: catchWrap_def split: prod.splits sum.splits)

lemma flashDfu_parsed:
  assumes "isDfuUtilInstalled e = None"
    and "findCompatibleDFU e (device s) = Inr d"
    and "binary s = Some f"
    and "disk s f = Some (File bs)"
    and "parseFile e (Some f) = Inr info"
  shows "flashDfu e s =
     catchWrap (andThen
        (inspectInfo e info
           (s\<lparr>specs := None, destAddress := None, flashingKnownApp := False,
              targetDevice := Some d,
              destSegment := Some (if factory s then ''factoryReset'' else ''userFirmware'')\<rparr>))
        (writeFirmware e))"
  using assms
  by (simp add: flashDfu_def checkDfuUtil_def findDevice_def findFile_def statSync_def
      parseBinary_def)

lemma inspectInfo_verified:
  assumes "suffixSize (suffixInfo info) \<noteq> 65535"
    and "ok (crc info) \<or> force s"
    and "deviceSpecs e (dfuId e) = Some sp"
    and "platformID (prefixInfo info) = productId sp \<or> force s"
  shows "inspectInfo e info s =
     andThen (selectSegment info sp (s\<lparr>specs := Some sp\<rparr>)) (\<lambda>_. chooseBinary e info)"
  using assms by (auto simp add: inspectInfo_def)

lemma hexAddress_prefixed: "hexAddress (''0x0'' @ a) = hexValue 0 a"
  by (simp add: hexAddress_def hexDigit_def)

lemma dropModuleInfo_vars:
  assumes "dropModuleInfo e b s = (r, s')"
  shows "\<exists>dk. s' = s\<lparr>disk := dk\<rparr>"
  using assms
  by (auto simp add: dropModuleInfo_def split: option.splits node.splits
      intro: exI [of _ "disk s"])

lemma chooseBinary_vars:
  assumes "chooseBinary e info s = (r, s')"
  shows "\<exists>dk. s' = s\<lparr>disk := dk\<rparr>"
  using assms dropModuleInfo_vars [of e "binary s" s r s']
  by (auto simp add: chooseBinary_def split: if_splits intro: exI [of _ "disk s"])

lemma writeFirmware_resolved:
  assumes "truthy (destAddress s)"
  shows "writeFirmware e fb s =
     (case writeDfu e (WriteDfu 0 fb (destAddress s) (leaveOf s) (targetDevice s)) of
        Some msg \<Rightarrow> Inl (External DfuWrite msg)
      | None \<Rightarrow> Inr (),
      s\<lparr>dfuWrites := dfuWrites s
           @ [WriteDfu 0 fb (destAddress s) (leaveOf s) (targetDevice s)]\<rparr>)"
  using assms by (simp add: writeFirmware_def lookupAddress_def Let_def leaveOf_def)

lemma inspectInfo_system_part:
  assumes "suffixSize (suffixInfo info) \<noteq> 65535"
    and "ok (crc info) \<or> force s"
    and "deviceSpecs e (dfuId e) = Some sp"
    and "platformID (prefixInfo info) = productId sp \<or> force s"
    and "moduleFunction (prefixInfo info) = SYSTEM_PART"
    and "inspectInfo e info s = (r, s')"
  shows "\<exists>dk. s' = s\<lparr>specs := Some sp,
            destSegment := systemModuleIndexToString (moduleIndex (prefixInfo info)),
            destAddress := Some (''0x0'' @ moduleStartAddy (prefixInfo info)),
            disk := dk\<rparr>"
proof -
  let ?s1 = "s\<lparr>specs := Some sp,
            destSegment := systemModuleIndexToString (moduleIndex (prefixInfo info)),
            destAddress := Some (''0x0'' @ moduleStartAddy (prefixInfo info))\<rparr>"
  have "inspectInfo e info s = chooseBinary e info ?s1"
    using assms(1-5) by (simp add: inspectInfo_verified [where sp = sp] selectSegment_def)
  with assms(6) show ?thesis
    using chooseBinary_vars [of e info ?s1 r s'] by simp
qed


lemma chooseBinary_validate_irrelevant:
  "chooseBinary (e\<lparr>validateSegmentSpecs := v\<rparr>) = chooseBinary e"
  by (intro ext) (simp add: chooseBinary_def dropModuleInfo_def split: option.splits node.splits)

lemma inspectInfo_validate_irrelevant:
  "inspectInfo (e\<lparr>validateSegmentSpecs := v\<rparr>) info s = inspectInfo e info s"
  by (simp add: inspectInfo_def chooseBinary_validate_irrelevant Let_def split: option.splits)

lemma writeFirmware_validate_irrelevant:
  "truthy (destAddress s) \<Longrightarrow>
     writeFirmware (e\<lparr>validateSegmentSpecs := v\<rparr>) fb s = writeFirmware e fb s"
  by (simp add: writeFirmware_resolved)

subsection \<open>What the steps leave unchanged, and how the last step ends\<close>

lemma sameCall_refl [simp]: "sameCall s s"
  by (simp add: sameCall_def)

lemma sameCall_trans: "sameCall s s1 \<Longrightarrow> sameCall s1 s2 \<Longrightarrow> sameCall s s2"
  by (simp add: sameCall_def)

lemma andThen_sameCall:
  assumes "andThen p f = (r', s')"
    and "sameCall s (snd p)"
    and "\<And>x s1 r2 s2. f x s1 = (r2, s2) \<Longrightarrow> sameCall s1 s2"
  shows "sameCall s s'"
proof (cases p)
  case (Pair r1 s1)
  show ?thesis
  proof (cases r1)
    case (Inl err)
    with Pair assms(1,2) show ?thesis by simp
  next
    case (Inr x)
    with Pair assms(1) have "f x s1 = (r', s')" by simp
    then have "sameCall s1 s'" by (rule assms(3))
    with Pair assms(2) show ?thesis by (auto intro: sameCall_trans)
  qed
qed

lemma checkDfuUtil_sameCall: "checkDfuUtil e s = (r, s') \<Longrightarrow> sameCall s s'"
  by (auto simp add: checkDfuUtil_def split: option.splits)

lemma findDevice_sameCall: "findDevice e s = (r, s') \<Longrightarrow> sameCall s s'"
  by (auto simp add: findDevice_def sameCall_def split: sum.splits)

lemma findFile_sameCall: "findFile e s = (r, s') \<Longrightarrow> sameCall s s'"
  by (auto simp add: findFile_def sameCall_def Let_def split: option.splits if_splits)

lemma chooseBinary_sameCall: "chooseBinary e info s = (r, s') \<Longrightarrow> sameCall s s'"
  using chooseBinary_vars [of e info s r s'] by (auto simp add: sameCall_def)

lemma selectSegment_sameCall: "selectSegment info sp s = (r, s') \<Longrightarrow> sameCall s s'"
  by (auto simp add: selectSegment_def sameCall_def split: function_type.splits if_splits)

lemma inspectInfo_sameCall:
  assumes "inspectInfo e info s = (r, s')"
  shows "sameCall s s'"
proof (cases "suffixSize (suffixInfo info) = 65535 \<or> (\<not> ok (crc info) \<and> \<not> force s)
    \<or> deviceSpecs e (dfuId e) = None")
  case True
  with assms show ?thesis
    by (auto simp add: inspectInfo_def sameCall_def split: if_splits)
next
  case False
  then obtain sp where sp: "deviceSpecs e (dfuId e) = Some sp" by auto
  show ?thesis
  proof (cases "platformID (prefixInfo info) \<noteq> productId sp \<and> \<not> force s")
    case True
    with assms False sp show ?thesis
      by (auto simp add: inspectInfo_def sameCall_def split: if_splits)
  next
    case nomismatch: False
    with assms False sp have run:
      "andThen (selectSegment info sp (s\<lparr>specs := Some sp\<rparr>)) (\<lambda>_. chooseBinary e info) = (r, s')"
      by (auto simp add: inspectInfo_def)
    have "sameCall (s\<lparr>specs := Some sp\<rparr>) s'"
    proof (rule andThen_sameCall [OF run])
      show "sameCall (s\<lparr>specs := Some sp\<rparr>) (snd (selectSegment info sp (s\<lparr>specs := Some sp\<rparr>)))"
        by (rule selectSegment_sameCall [of info sp _ "fst (selectSegment info sp (s\<lparr>specs := Some sp\<rparr>))"]) simp
    qed (rule chooseBinary_sameCall)
    then show ?thesis by (simp add: sameCall_def)
  qed
qed

lemma parseBinary_sameCall: "parseBinary e s = (r, s') \<Longrightarrow> sameCall s s'"
  using inspectInfo_sameCall [of e _ "s\<lparr>destSegment := Some (if factory s then ''factoryReset'' else ''userFirmware'')\<rparr>" r s']
  by (auto simp add: parseBinary_def Let_def sameCall_def split: if_splits sum.splits)

lemma flashDfu_reaches:
  obtains r s3 where "flashDfu e s = catchWrap (andThen (r, s3) (writeFirmware e))"
    and "sameCall s s3"
proof -
  let ?s = "s\<lparr>specs := None, destSegment := None, destAddress := None,
                 flashingKnownApp := False, targetDevice := None\<rparr>"
  let ?p1 = "andThen (Inr (), ?s) (\<lambda>_. checkDfuUtil e)"
  let ?p2 = "andThen ?p1 (\<lambda>_. findDevice e)"
  let ?p3 = "andThen ?p2 (\<lambda>_. findFile e)"
  let ?p4 = "andThen ?p3 (\<lambda>_. parseBinary e)"
  have 0: "sameCall s ?s" by (simp add: sameCall_def)
  have 1: "sameCall s (snd ?p1)"
    by (rule andThen_sameCall [of "(Inr (), ?s)" "\<lambda>_. checkDfuUtil e" "fst ?p1"])
       (simp_all add: 0 checkDfuUtil_sameCall del: andThen_simps)
  have 2: "sameCall s (snd ?p2)"
    by (rule andThen_sameCall [of ?p1 "\<lambda>_. findDevice e" "fst ?p2"])
       (simp_all add: 1 findDevice_sameCall del: andThen_simps)
  have 3: "sameCall s (snd ?p3)"
    by (rule andThen_sameCall [of ?p2 "\<lambda>_. findFile e" "fst ?p3"])
       (simp_all add: 2 findFile_sameCall del: andThen_simps)
  have 4: "sameCall s (snd ?p4)"
    by (rule andThen_sameCall [of ?p3 "\<lambda>_. parseBinary e" "fst ?p4"])
       (simp_all add: 3 parseBinary_sameCall del: andThen_simps)
  have "flashDfu e s = catchWrap (andThen (fst ?p4, snd ?p4) (writeFirmware e))"
    by (simp add: flashDfu_def del: andThen_simps)
  from this 4 show thesis by (rule that)
qed


lemma lookupAddress_cases:
  "(\<exists>err. lookupAddress e s = (Inl err, s) \<and> \<not> truthy (destAddress s)
        \<and> (err = TypeError ''segment.specs.address'' \<or> isUnknownDestination err))
   \<or> (\<exists>a. lookupAddress e s = (Inr (), s\<lparr>destAddress := a\<rparr>)
        \<and> (truthy (destAddress s) \<longrightarrow> a = destAddress s))"
  by (auto simp add: lookupAddress_def Let_def isUnknownDestination_def
      split: option.splits if_splits intro: exI [of _ "destAddress s"])

lemma writeFirmware_cases:
  "(\<exists>err s'. writeFirmware e fb s = (Inl err, s') \<and> \<not> truthy (destAddress s')
        \<and> dfuWrites s' = dfuWrites s \<and> destSegment s' = destSegment s
        \<and> (err = TypeError ''segment.specs.address'' \<or> isUnknownDestination err))
   \<or> (\<exists>a s'. a \<noteq> [] \<and> snd (writeFirmware e fb s) = s' \<and> destAddress s' = Some a
        \<and> destSegment s' = destSegment s
        \<and> dfuWrites s' = dfuWrites s @ [WriteDfu 0 fb (Some a) (leaveOf s) (targetDevice s)]
        \<and> fst (writeFirmware e fb s) =
            (case writeDfu e (WriteDfu 0 fb (Some a) (leaveOf s) (targetDevice s)) of
               Some msg \<Rightarrow> Inl (External DfuWrite msg)
             | None \<Rightarrow> Inr ()))"
proof -
  from lookupAddress_cases [of e s] consider
    (failed) err where "lookupAddress e s = (Inl err, s)" "\<not> truthy (destAddress s)"
      "err = TypeError ''segment.specs.address'' \<or> isUnknownDestination err"
    | (looked) a where "lookupAddress e s = (Inr (), s\<lparr>destAddress := a\<rparr>)"
    by blast
  then show ?thesis
  proof cases
    case failed
    then show ?thesis by (simp add: writeFirmware_def)
  next
    case looked
    show ?thesis
    proof (cases "truthy a")
      case False
      with looked show ?thesis
        by (simp add: writeFirmware_def isUnknownDestination_def)
    next
      case True
      then obtain x where "a = Some x" "x \<noteq> []"
        by (auto simp add: truthy_def split: option.splits)
      with looked show ?thesis
        by (simp add: writeFirmware_def truthy_def Let_def leaveOf_def cong: option.case_cong)
    qed
  qed
qed

subsection \<open>System parts\<close>

text \<open>
  Claim C1, as the code has it. For a descriptor of a system part with module index 1,
  2 or 3 and a suffix size other than 65535 that passes the CRC and platform checks (or
  is forced), \<^verbatim>\<open>flashDfu\<close> sets the segment to
  systemFirmwareOne, systemFirmwareTwo or systemFirmwareThree and the address to
  \<^verbatim>\<open>'0x0'\<close> followed by the descriptor's start address, a hex string that denotes
  the same number as the start address. The device-write primitive, when it is reached,
  receives this address, and the segment table is not consulted: the run is the same
  for every \<^verbatim>\<open>_validateSegmentSpecs\<close>.
\<close>

theorem system_part_destination:
  assumes "isDfuUtilInstalled e = None"
    and "findCompatibleDFU e (device s) = Inr d"
    and "binary s = Some f"
    and "disk s f = Some (File bs)"
    and "parseFile e (Some f) = Inr info"
    and "suffixSize (suffixInfo info) \<noteq> 65535"
    and "ok (crc info) \<or> force s"
    and "deviceSpecs e (dfuId e) = Some sp"
    and "platformID (prefixInfo info) = productId sp \<or> force s"
    and "moduleFunction (prefixInfo info) = SYSTEM_PART"
    and "moduleIndex (prefixInfo info) \<in> {1, 2, 3}"
  shows "destSegment (snd (flashDfu e s)) =
           Some (if moduleIndex (prefixInfo info) = 1 then ''systemFirmwareOne''
                 else if moduleIndex (prefixInfo info) = 2 then ''systemFirmwareTwo''
                 else ''systemFirmwareThree'')
       \<and> destAddress (snd (flashDfu e s)) = Some (''0x0'' @ moduleStartAddy (prefixInfo info))
       \<and> hexAddress (''0x0'' @ moduleStartAddy (prefixInfo info))
           = hexValue 0 (moduleStartAddy (prefixInfo info))
       \<and> (dfuWrites (snd (flashDfu e s)) = dfuWrites s
          \<or> (\<exists>fb lv. dfuWrites (snd (flashDfu e s)) = dfuWrites s
                @ [WriteDfu 0 fb (Some (''0x0'' @ moduleStartAddy (prefixInfo info))) lv (Some d)]))
       \<and> (\<forall>v. flashDfu (e\<lparr>validateSegmentSpecs := v\<rparr>) s = flashDfu e s)"
proof -
  let ?s0 = "s\<lparr>specs := None, destAddress := None, flashingKnownApp := False,
              targetDevice := Some d,
              destSegment := Some (if factory s then ''factoryReset'' else ''userFirmware'')\<rparr>"
  let ?a = "Some (''0x0'' @ moduleStartAddy (prefixInfo info))"
  obtain r s1 where insp: "inspectInfo e info ?s0 = (r, s1)"
    by (cases "inspectInfo e info ?s0")
  from assms(6-10) insp obtain dk where s1:
    "s1 = ?s0\<lparr>specs := Some sp,
            destSegment := systemModuleIndexToString (moduleIndex (prefixInfo info)),
            destAddress := ?a, disk := dk\<rparr>"
    using inspectInfo_system_part [of info ?s0 e sp r s1] by auto
  have run: "flashDfu e s = catchWrap (andThen (r, s1) (writeFirmware e))"
    using assms(1-5) insp by (simp add: flashDfu_parsed [where d = d and f = f and bs = bs])
  have addr: "truthy (destAddress s1)"
    by (simp add: s1 truthy_def)
  have seg: "destSegment s1 =
           Some (if moduleIndex (prefixInfo info) = 1 then ''systemFirmwareOne''
                 else if moduleIndex (prefixInfo info) = 2 then ''systemFirmwareTwo''
                 else ''systemFirmwareThree'')"
    using assms(11) by (auto simp add: s1 systemModuleIndexToString_def)
  have vars: "destSegment (snd (flashDfu e s)) = destSegment s1
      \<and> destAddress (snd (flashDfu e s)) = ?a
      \<and> (dfuWrites (snd (flashDfu e s)) = dfuWrites s
          \<or> (\<exists>fb lv. dfuWrites (snd (flashDfu e s)) = dfuWrites s @ [WriteDfu 0 fb ?a lv (Some d)]))"
  proof (cases r)
    case (Inl err)
    then show ?thesis by (simp add: run s1)
  next
    case (Inr fb)
    then show ?thesis
      using addr by (simp add: run writeFirmware_resolved) (simp add: s1)
  qed
  have indep: "flashDfu (e\<lparr>validateSegmentSpecs := v\<rparr>) s = flashDfu e s" for v
  proof -
    have "flashDfu (e\<lparr>validateSegmentSpecs := v\<rparr>) s =
        catchWrap (andThen (r, s1) (writeFirmware (e\<lparr>validateSegmentSpecs := v\<rparr>)))"
      using assms(1-5) insp
      by (simp add: flashDfu_parsed [where d = d and f = f and bs = bs and info = info]
          inspectInfo_validate_irrelevant)
    also have "\<dots> = catchWrap (andThen (r, s1) (writeFirmware e))"
      using addr by (cases r) (simp_all add: writeFirmware_validate_irrelevant)
    finally show ?thesis by (simp add: run)
  qed
  from vars seg indep hexAddress_prefixed [of "moduleStartAddy (prefixInfo info)"]
  show ?thesis by simp
qed

text \<open>
  Claim C1 speaks of every descriptor of a system part with module index 1, 2 or 3. It
  does not hold when the suffix size is 65535: the descriptor callback returns after
  the warning, before the module function is looked at. Here the descriptor is a
  system part with module index 2, a valid CRC and the platform id of the device, the
  call is forced, and yet the segment stays userFirmware and the address written to is
  the one of the segment table, not the start address of the descriptor; the same
  happens without \<^verbatim>\<open>force\<close>.
\<close>

theorem system_part_sentinel_counterexample:
  "parseFile (example_sentinel 2) (binary example_forced) = Inr (example_sentinel_info 2)
   \<and> moduleFunction (prefixInfo (example_sentinel_info 2)) = SYSTEM_PART
   \<and> moduleIndex (prefixInfo (example_sentinel_info 2)) = 2
   \<and> moduleStartAddy (prefixInfo (example_sentinel_info 2)) = ''8020000''
   \<and> ok (crc (example_sentinel_info 2))
   \<and> deviceSpecs (example_sentinel 2) (dfuId (example_sentinel 2))
       = Some \<lparr>productId = platformID (prefixInfo (example_sentinel_info 2)),
               systemFirmwareOne = Some \<lparr>address = Some ''0x08020000''\<rparr>\<rparr>
   \<and> force example_forced
   \<and> suffixSize (suffixInfo (example_sentinel_info 2)) = 65535
   \<and> fst (flashDfu (example_sentinel 2) example_forced) = Inr ()
   \<and> destSegment (snd (flashDfu (example_sentinel 2) example_forced)) = Some ''userFirmware''
   \<and> destAddress (snd (flashDfu (example_sentinel 2) example_forced)) = Some ''0x080A0000''
   \<and> dfuWrites (snd (flashDfu (example_sentinel 2) example_forced))
       = [WriteDfu 0 None (Some ''0x080A0000'') True (Some ''2b04:d006'')]
   \<and> destSegment (snd (flashDfu (example_sentinel 2) example_state)) = Some ''userFirmware''
   \<and> destAddress (snd (flashDfu (example_sentinel 2) example_state)) = Some ''0x080A0000''"
  by (simp add: flash_defs example_defs example_system_info_def example_sentinel_info_def
      example_sentinel_def example_forced_def)

theorem system_part_destination_witness:
  "destSegment (snd (flashDfu (example_env\<lparr>parseFile := \<lambda>_. Inr (example_system_info 2)\<rparr>)
       example_state)) = Some ''systemFirmwareTwo''
   \<and> destAddress (snd (flashDfu (example_env\<lparr>parseFile := \<lambda>_. Inr (example_system_info 2)\<rparr>)
       example_state)) = Some ''0x08020000''
   \<and> hexAddress ''0x08020000'' = hexValue 0 ''8020000''"
  using system_part_destination [of "example_env\<lparr>parseFile := \<lambda>_. Inr (example_system_info 2)\<rparr>"
      example_state "''2b04:d006''" "''firmware.bin''" "[1, 2, 3, 4, 5]" "example_system_info 2"
      "\<lparr>productId = 6, systemFirmwareOne = Some \<lparr>address = Some ''0x08020000''\<rparr>\<rparr>"]
  by (simp add: example_env_def example_state_def example_info_def example_system_info_def)

subsection \<open>The destination address\<close>

lemma flashDfu_writes:
  "(\<exists>err. fst (flashDfu e s) = Inl (ErrorWritingFirmware err))
      \<and> dfuWrites (snd (flashDfu e s)) = dfuWrites s
   \<or> (\<exists>fb a td. a \<noteq> [] \<and> destAddress (snd (flashDfu e s)) = Some a
        \<and> dfuWrites (snd (flashDfu e s)) = dfuWrites s
            @ [WriteDfu 0 fb (Some a)
                 (case requestLeave s of Some b \<Rightarrow> b
                  | None \<Rightarrow> destSegment (snd (flashDfu e s)) = Some ''userFirmware'') td])"
proof -
  obtain r s3 where run: "flashDfu e s = catchWrap (andThen (r, s3) (writeFirmware e))"
    and same: "sameCall s s3"
    by (rule flashDfu_reaches)
  show ?thesis
  proof (cases r)
    case (Inl err)
    with run same show ?thesis by (simp add: sameCall_def)
  next
    case (Inr fb)
    with run have run': "flashDfu e s = catchWrap (writeFirmware e fb s3)" by simp
    from writeFirmware_cases [of e fb s3] consider
      (unresolved) err s' where "writeFirmware e fb s3 = (Inl err, s')"
        "dfuWrites s' = dfuWrites s3"
      | (written) a s' where "a \<noteq> []" "snd (writeFirmware e fb s3) = s'"
        "destAddress s' = Some a" "destSegment s' = destSegment s3"
        "dfuWrites s' = dfuWrites s3 @ [WriteDfu 0 fb (Some a) (leaveOf s3) (targetDevice s3)]"
      by blast
    then show ?thesis
    proof cases
      case unresolved
      with run' same show ?thesis by (simp add: sameCall_def)
    next
      case written
      from run' written(2) have fin: "snd (flashDfu e s) = s'" by simp
      have "leaveOf s3 = (case requestLeave s of Some b \<Rightarrow> b
                  | None \<Rightarrow> destSegment s' = Some ''userFirmware'')"
        using same written(4) by (simp add: leaveOf_def sameCall_def split: option.splits)
      with written same fin show ?thesis
        by (simp add: sameCall_def cong: option.case_cong)
    qed
  qed
qed

lemma flashDfu_no_address:
  assumes "\<not> truthy (destAddress (snd (flashDfu e s)))"
  shows "dfuWrites (snd (flashDfu e s)) = dfuWrites s
     \<and> (\<exists>err. fst (flashDfu e s) = Inl (ErrorWritingFirmware err))"
  using flashDfu_writes [of e s] assms by (auto simp add: truthy_def)

lemma flashDfu_success:
  assumes "fst (flashDfu e s) = Inr ()"
  shows "truthy (destAddress (snd (flashDfu e s)))
     \<and> dfuWrites (snd (flashDfu e s)) \<noteq> dfuWrites s"
  using flashDfu_writes [of e s] assms by (auto simp add: truthy_def)

lemma writeFirmware_unresolved:
  assumes "\<not> truthy (destAddress s)"
    and "\<not> truthy (destSegment s)
       \<or> truthy (segment_error (validateSegmentSpecs e (destSegment s)))
       \<or> (\<exists>sp. segment_specs (validateSegmentSpecs e (destSegment s)) = Some sp
              \<and> \<not> truthy (address sp))"
  shows "\<exists>err s'. writeFirmware e fb s = (Inl err, s') \<and> isUnknownDestination err
       \<and> dfuWrites s' = dfuWrites s"
  using assms
  by (auto simp add: writeFirmware_def lookupAddress_def Let_def isUnknownDestination_def
      split: option.splits if_splits)


lemma leaveOf_update [simp]:
  "leaveOf (s\<lparr>destAddress := a\<rparr>) = leaveOf s"
  "leaveOf (s\<lparr>dfuWrites := w\<rparr>) = leaveOf s"
  by (simp_all add: leaveOf_def split: option.splits)

lemma writeFirmware_lookup_error:
  assumes "\<not> truthy (destAddress s)" and "truthy (destSegment s)"
    and "segment_error (validateSegmentSpecs e (destSegment s)) = Some msg"
    and "msg \<noteq> []"
  shows "writeFirmware e fb s = (Inl (SegmentError msg), s)"
  using assms by (simp add: writeFirmware_def lookupAddress_def truthy_def)

lemma writeFirmware_lookup_address:
  assumes "\<not> truthy (destAddress s)" and "truthy (destSegment s)"
    and "\<not> truthy (segment_error (validateSegmentSpecs e (destSegment s)))"
    and "segment_specs (validateSegmentSpecs e (destSegment s)) = Some sp"
    and "truthy (address sp)"
  shows "writeFirmware e fb s =
     (case writeDfu e (WriteDfu 0 fb (address sp) (leaveOf s) (targetDevice s)) of
        Some msg \<Rightarrow> Inl (External DfuWrite msg)
      | None \<Rightarrow> Inr (),
      s\<lparr>destAddress := address sp,
        dfuWrites := dfuWrites s @ [WriteDfu 0 fb (address sp) (leaveOf s) (targetDevice s)]\<rparr>)"
  using assms by (simp add: writeFirmware_def lookupAddress_def Let_def)

lemma inspectInfo_address:
  assumes "destAddress s = None"
    and "inspectInfo e info s = (r, s')"
  shows "destAddress s' = None
     \<or> (moduleFunction (prefixInfo info) = SYSTEM_PART
          \<or> moduleFunction (prefixInfo info) = RADIO_STACK)
        \<and> destAddress s' = Some (''0x0'' @ moduleStartAddy (prefixInfo info))"
proof (cases "suffixSize (suffixInfo info) = 65535 \<or> (\<not> ok (crc info) \<and> \<not> force s)
    \<or> deviceSpecs e (dfuId e) = None")
  case True
  with assms show ?thesis
    by (auto simp add: inspectInfo_def split: if_splits)
next
  case False
  then obtain sp where sp: "deviceSpecs e (dfuId e) = Some sp" by auto
  show ?thesis
  proof (cases "platformID (prefixInfo info) \<noteq> productId sp \<and> \<not> force s")
    case True
    with assms False sp show ?thesis
      by (auto simp add: inspectInfo_def split: if_splits)
  next
    case platform: False
    obtain r1 s1 where sel: "selectSegment info sp (s\<lparr>specs := Some sp\<rparr>) = (r1, s1)"
      by (cases "selectSegment info sp (s\<lparr>specs := Some sp\<rparr>)")
    with assms(1) have a1: "destAddress s1 = None
       \<or> (moduleFunction (prefixInfo info) = SYSTEM_PART
            \<or> moduleFunction (prefixInfo info) = RADIO_STACK)
          \<and> destAddress s1 = Some (''0x0'' @ moduleStartAddy (prefixInfo info))"
      by (auto simp add: selectSegment_def split: function_type.splits if_splits)
    from assms(2) False sp platform sel
    have run: "andThen (r1, s1) (\<lambda>_. chooseBinary e info) = (r, s')"
      by (auto simp add: inspectInfo_def)
    show ?thesis
    proof (cases r1)
      case (Inl err)
      with run a1 show ?thesis by simp
    next
      case (Inr u)
      with run have "chooseBinary e info s1 = (r, s')" by simp
      from chooseBinary_vars [OF this] a1 show ?thesis by auto
    qed
  qed
qed

lemma parseBinary_address:
  assumes "destAddress s = None"
    and "parseBinary e s = (r, s')"
  shows "destAddress s' = None
     \<or> \<not> flashingKnownApp s
        \<and> (\<exists>info. parseFile e (binary s) = Inr info
              \<and> (moduleFunction (prefixInfo info) = SYSTEM_PART
                  \<or> moduleFunction (prefixInfo info) = RADIO_STACK)
              \<and> destAddress s' = Some (''0x0'' @ moduleStartAddy (prefixInfo info)))"
proof (cases "flashingKnownApp s")
  case True
  with assms show ?thesis by (auto simp add: parseBinary_def)
next
  case False
  show ?thesis
  proof (cases "parseFile e (binary s)")
    case (Inl msg)
    with False assms show ?thesis by (auto simp add: parseBinary_def)
  next
    case (Inr info)
    let ?s = "s\<lparr>destSegment := Some (if factory s then ''factoryReset'' else ''userFirmware'')\<rparr>"
    from False Inr assms(2) have "inspectInfo e info ?s = (r, s')"
      by (simp add: parseBinary_def)
    from inspectInfo_address [OF _ this] assms(1) False Inr show ?thesis by auto
  qed
qed

lemma flashDfu_reaches_address:
  "\<exists>r s3. flashDfu e s = catchWrap (andThen (r, s3) (writeFirmware e))
     \<and> sameCall s s3
     \<and> (destAddress s3 = None
        \<or> (\<exists>info. parseFile e (binary s) = Inr info
              \<and> (moduleFunction (prefixInfo info) = SYSTEM_PART
                  \<or> moduleFunction (prefixInfo info) = RADIO_STACK)
              \<and> destAddress s3 = Some (''0x0'' @ moduleStartAddy (prefixInfo info))))"
proof -
  let ?i = "s\<lparr>specs := None, destSegment := None, destAddress := None,
                 flashingKnownApp := False, targetDevice := None\<rparr>"
  let ?p3 = "andThen (andThen (andThen (Inr (), ?i) (\<lambda>_. checkDfuUtil e))
      (\<lambda>_. findDevice e)) (\<lambda>_. findFile e)"
  let ?p4 = "andThen ?p3 (\<lambda>_. parseBinary e)"
  have run: "flashDfu e s = catchWrap (andThen (fst ?p4, snd ?p4) (writeFirmware e))"
    by (simp add: flashDfu_def del: andThen_simps)
  obtain r s3 where reach: "flashDfu e s = catchWrap (andThen (r, s3) (writeFirmware e))"
    and same: "sameCall s s3" and p4: "?p4 = (r, s3)"
  proof -
    obtain r' s' where rs: "flashDfu e s = catchWrap (andThen (r', s') (writeFirmware e))"
      "sameCall s s'" by (rule flashDfu_reaches)
    have "sameCall s (snd ?p4)"
    proof -
      have 3: "sameCall s (snd ?p3)"
        by (auto simp add: andThen_def checkDfuUtil_def findDevice_def findFile_def Let_def
            sameCall_def split: option.splits sum.splits if_splits)
      show ?thesis
        by (rule andThen_sameCall [of ?p3 "\<lambda>_. parseBinary e" "fst ?p4"])
           (simp_all add: 3 parseBinary_sameCall del: andThen_simps)
    qed
    with run show thesis by (intro that [of "fst ?p4" "snd ?p4"]) simp_all
  qed
  have p3: "destAddress (snd ?p3) = None
      \<and> (fst ?p3 = Inr () \<longrightarrow> flashingKnownApp (snd ?p3) \<or> binary (snd ?p3) = binary s)"
    by (auto simp add: andThen_def checkDfuUtil_def findDevice_def findFile_def Let_def
        split: option.splits sum.splits if_splits)
  have "destAddress s3 = None
        \<or> (\<exists>info. parseFile e (binary s) = Inr info
              \<and> (moduleFunction (prefixInfo info) = SYSTEM_PART
                  \<or> moduleFunction (prefixInfo info) = RADIO_STACK)
              \<and> destAddress s3 = Some (''0x0'' @ moduleStartAddy (prefixInfo info)))"
  proof (cases "fst ?p3")
    case (Inl err)
    then have "?p4 = (Inl err, snd ?p3)"
      by (cases ?p3) (simp del: andThen_simps add: andThen_def)
    with p4 p3 show ?thesis by simp
  next
    case (Inr u)
    then have "?p4 = parseBinary e (snd ?p3)"
      by (cases ?p3) (simp del: andThen_simps add: andThen_def)
    with p4 have pb: "parseBinary e (snd ?p3) = (r, s3)" by simp
    from parseBinary_address [OF _ pb] p3 Inr show ?thesis by auto
  qed
  with reach same show ?thesis by blast
qed


lemma writeFirmware_source:
  "(\<exists>err s'. writeFirmware e fb s = (Inl err, s') \<and> dfuWrites s' = dfuWrites s)
   \<or> (\<exists>a. a \<noteq> []
        \<and> dfuWrites (snd (writeFirmware e fb s))
            = dfuWrites s @ [WriteDfu 0 fb (Some a) (leaveOf s) (targetDevice s)]
        \<and> destAddress (snd (writeFirmware e fb s)) = Some a
        \<and> destSegment (snd (writeFirmware e fb s)) = destSegment s
        \<and> (destAddress s = Some a
           \<or> \<not> truthy (destAddress s) \<and> truthy (destSegment s)
             \<and> \<not> truthy (segment_error (validateSegmentSpecs e (destSegment s)))
             \<and> (\<exists>sp. segment_specs (validateSegmentSpecs e (destSegment s)) = Some sp
                    \<and> address sp = Some a)))"
proof (cases "truthy (destAddress s)")
  case True
  then obtain a where "destAddress s = Some a" "a \<noteq> []"
    by (cases "destAddress s") auto
  with True show ?thesis by (simp add: writeFirmware_resolved)
next
  case noaddr: False
  show ?thesis
  proof (cases "truthy (destSegment s)
      \<and> \<not> truthy (segment_error (validateSegmentSpecs e (destSegment s)))")
    case False
    with noaddr show ?thesis
      by (auto simp add: writeFirmware_def lookupAddress_def Let_def split: option.splits)
  next
    case lookup: True
    show ?thesis
    proof (cases "segment_specs (validateSegmentSpecs e (destSegment s))")
      case None
      with noaddr lookup show ?thesis
        by (simp add: writeFirmware_def lookupAddress_def)
    next
      case (Some sp)
      show ?thesis
      proof (cases "truthy (address sp)")
        case False
        with noaddr lookup Some show ?thesis
          by (simp add: writeFirmware_def lookupAddress_def)
      next
        case True
        then obtain a where a: "address sp = Some a" "a \<noteq> []"
          by (cases "address sp") auto
        from noaddr lookup Some True
        have "writeFirmware e fb s =
            (case writeDfu e (WriteDfu 0 fb (address sp) (leaveOf s) (targetDevice s)) of
               Some msg \<Rightarrow> Inl (External DfuWrite msg)
             | None \<Rightarrow> Inr (),
             s\<lparr>destAddress := address sp,
               dfuWrites := dfuWrites s
                 @ [WriteDfu 0 fb (address sp) (leaveOf s) (targetDevice s)]\<rparr>)"
          by (intro writeFirmware_lookup_address) simp_all
        with a noaddr lookup Some show ?thesis by simp
      qed
    qed
  qed
qed

lemma writeFirmware_no_entry:
  assumes "\<not> truthy (destAddress s)" and "truthy (destSegment s)"
    and "\<not> truthy (segment_error (validateSegmentSpecs e (destSegment s)))"
    and "segment_specs (validateSegmentSpecs e (destSegment s)) = None"
  shows "writeFirmware e fb s = (Inl (TypeError ''segment.specs.address''), s)"
  using assms by (simp add: writeFirmware_def lookupAddress_def)

lemma flashDfu_address_source:
  "dfuWrites (snd (flashDfu e s)) = dfuWrites s
   \<or> (\<exists>fb a lv td. a \<noteq> []
        \<and> dfuWrites (snd (flashDfu e s)) = dfuWrites s @ [WriteDfu 0 fb (Some a) lv td]
        \<and> destAddress (snd (flashDfu e s)) = Some a
        \<and> ((\<exists>info. parseFile e (binary s) = Inr info
                \<and> (moduleFunction (prefixInfo info) = SYSTEM_PART
                    \<or> moduleFunction (prefixInfo info) = RADIO_STACK)
                \<and> a = ''0x0'' @ moduleStartAddy (prefixInfo info))
           \<or> truthy (destSegment (snd (flashDfu e s)))
             \<and> \<not> truthy (segment_error
                    (validateSegmentSpecs e (destSegment (snd (flashDfu e s)))))
             \<and> (\<exists>sp. segment_specs
                      (validateSegmentSpecs e (destSegment (snd (flashDfu e s)))) = Some sp
                    \<and> address sp = Some a)))"
proof -
  from flashDfu_reaches_address [of e s] obtain r s3 where
    run: "flashDfu e s = catchWrap (andThen (r, s3) (writeFirmware e))"
    and same: "sameCall s s3"
    and src: "destAddress s3 = None
        \<or> (\<exists>info. parseFile e (binary s) = Inr info
              \<and> (moduleFunction (prefixInfo info) = SYSTEM_PART
                  \<or> moduleFunction (prefixInfo info) = RADIO_STACK)
              \<and> destAddress s3 = Some (''0x0'' @ moduleStartAddy (prefixInfo info)))"
    by blast
  show ?thesis
  proof (cases r)
    case (Inl err)
    with run same show ?thesis by (simp add: sameCall_def)
  next
    case (Inr fb)
    with run have run': "flashDfu e s = catchWrap (writeFirmware e fb s3)" by simp
    from writeFirmware_source [of e fb s3] consider
      (failed) err s' where "writeFirmware e fb s3 = (Inl err, s')" "dfuWrites s' = dfuWrites s3"
      | (written) a where "a \<noteq> []"
        "dfuWrites (snd (writeFirmware e fb s3))
            = dfuWrites s3 @ [WriteDfu 0 fb (Some a) (leaveOf s3) (targetDevice s3)]"
        "destAddress (snd (writeFirmware e fb s3)) = Some a"
        "destSegment (snd (writeFirmware e fb s3)) = destSegment s3"
        "destAddress s3 = Some a
           \<or> \<not> truthy (destAddress s3) \<and> truthy (destSegment s3)
             \<and> \<not> truthy (segment_error (validateSegmentSpecs e (destSegment s3)))
             \<and> (\<exists>sp. segment_specs (validateSegmentSpecs e (destSegment s3)) = Some sp
                    \<and> address sp = Some a)"
      by blast
    then show ?thesis
    proof cases
      case failed
      with run' same show ?thesis by (simp add: sameCall_def)
    next
      case written
      have fin: "snd (flashDfu e s) = snd (writeFirmware e fb s3)" by (simp add: run')
      from written(5) src
      have "(\<exists>info. parseFile e (binary s) = Inr info
                \<and> (moduleFunction (prefixInfo info) = SYSTEM_PART
                    \<or> moduleFunction (prefixInfo info) = RADIO_STACK)
                \<and> a = ''0x0'' @ moduleStartAddy (prefixInfo info))
           \<or> truthy (destSegment s3)
             \<and> \<not> truthy (segment_error (validateSegmentSpecs e (destSegment s3)))
             \<and> (\<exists>sp. segment_specs (validateSegmentSpecs e (destSegment s3)) = Some sp
                    \<and> address sp = Some a)"
        by auto
      with written(1-4) same fin show ?thesis
        by (intro disjI2 exI [of _ fb] exI [of _ a] exI [of _ "leaveOf s3"]
            exI [of _ "targetDevice s3"]) (simp add: sameCall_def)
    qed
  qed
qed


text \<open>
  Claim C3. The device-write primitive is called at most once by \<^verbatim>\<open>flashDfu\<close>, and
  only with an address that is a non-empty string; this address is the one resolved,
  and it is either \<^verbatim>\<open>'0x0'\<close> followed by the start address of the parsed
  descriptor (a system part or a radio stack) or the address that the segment lookup
  of the resolved segment yields, never anything else. A call of \<^verbatim>\<open>flashDfu\<close> that
  succeeds has resolved an address and made the call; when no address is left at the
  end, nothing was written and the call failed. In the last callback, when no address
  was set from the descriptor and the segment lookup reports an error (one that is not
  empty) or yields no address (or there is no segment to look up), the callback throws
  one of the errors that the specification calls UnknownDestination, and the write
  primitive is not called. A lookup that returns neither an error nor an entry is not
  among the results the specification gives the lookup (an address or an error); there
  the callback fails on reading the address of the missing entry, and again nothing is
  written.
\<close>

theorem write_only_with_address:
  "(dfuWrites (snd (flashDfu e s)) = dfuWrites s
      \<or> (\<exists>fb a lv td. a \<noteq> []
            \<and> dfuWrites (snd (flashDfu e s)) = dfuWrites s @ [WriteDfu 0 fb (Some a) lv td]
            \<and> destAddress (snd (flashDfu e s)) = Some a
            \<and> ((\<exists>info. parseFile e (binary s) = Inr info
                    \<and> (moduleFunction (prefixInfo info) = SYSTEM_PART
                        \<or> moduleFunction (prefixInfo info) = RADIO_STACK)
                    \<and> a = ''0x0'' @ moduleStartAddy (prefixInfo info))
               \<or> truthy (destSegment (snd (flashDfu e s)))
                 \<and> \<not> truthy (segment_error
                        (validateSegmentSpecs e (destSegment (snd (flashDfu e s)))))
                 \<and> (\<exists>sp. segment_specs
                          (validateSegmentSpecs e (destSegment (snd (flashDfu e s)))) = Some sp
                        \<and> address sp = Some a))))
   \<and> (fst (flashDfu e s) = Inr () \<longrightarrow>
        truthy (destAddress (snd (flashDfu e s)))
        \<and> dfuWrites (snd (flashDfu e s)) \<noteq> dfuWrites s)
   \<and> (\<not> truthy (destAddress (snd (flashDfu e s))) \<longrightarrow>
        dfuWrites (snd (flashDfu e s)) = dfuWrites s
        \<and> (\<exists>err. fst (flashDfu e s) = Inl (ErrorWritingFirmware err)))
   \<and> (\<forall>fb s3.
        \<not> truthy (destAddress s3)
        \<and> (\<not> truthy (destSegment s3)
           \<or> truthy (segment_error (validateSegmentSpecs e (destSegment s3)))
           \<or> (\<exists>sp. segment_specs (validateSegmentSpecs e (destSegment s3)) = Some sp
                  \<and> \<not> truthy (address sp)))
        \<longrightarrow> (\<exists>err s'. writeFirmware e fb s3 = (Inl err, s') \<and> isUnknownDestination err
               \<and> dfuWrites s' = dfuWrites s3))
   \<and> (\<forall>fb s3.
        \<not> truthy (destAddress s3) \<and> truthy (destSegment s3)
        \<and> \<not> truthy (segment_error (validateSegmentSpecs e (destSegment s3)))
        \<and> segment_specs (validateSegmentSpecs e (destSegment s3)) = None
        \<longrightarrow> writeFirmware e fb s3 = (Inl (TypeError ''segment.specs.address''), s3))"
proof (intro conjI allI impI)
  show "dfuWrites (snd (flashDfu e s)) = dfuWrites s
      \<or> (\<exists>fb a lv td. a \<noteq> []
            \<and> dfuWrites (snd (flashDfu e s)) = dfuWrites s @ [WriteDfu 0 fb (Some a) lv td]
            \<and> destAddress (snd (flashDfu e s)) = Some a
            \<and> ((\<exists>info. parseFile e (binary s) = Inr info
                    \<and> (moduleFunction (prefixInfo info) = SYSTEM_PART
                        \<or> moduleFunction (prefixInfo info) = RADIO_STACK)
                    \<and> a = ''0x0'' @ moduleStartAddy (prefixInfo info))
               \<or> truthy (destSegment (snd (flashDfu e s)))
                 \<and> \<not> truthy (segment_error
                        (validateSegmentSpecs e (destSegment (snd (flashDfu e s)))))
                 \<and> (\<exists>sp. segment_specs
                          (validateSegmentSpecs e (destSegment (snd (flashDfu e s)))) = Some sp
                        \<and> address sp = Some a)))"
    by (rule flashDfu_address_source)
next
  assume "fst (flashDfu e s) = Inr ()"
  then show "truthy (destAddress (snd (flashDfu e s)))"
    and "dfuWrites (snd (flashDfu e s)) \<noteq> dfuWrites s"
    using flashDfu_success [of e s] by simp_all
next
  assume "\<not> truthy (destAddress (snd (flashDfu e s)))"
  then show "dfuWrites (snd (flashDfu e s)) = dfuWrites s"
    and "\<exists>err. fst (flashDfu e s) = Inl (ErrorWritingFirmware err)"
    using flashDfu_no_address [of e s] by simp_all
next
  fix fb and s3 :: state
  assume "\<not> truthy (destAddress s3)
        \<and> (\<not> truthy (destSegment s3)
           \<or> truthy (segment_error (validateSegmentSpecs e (destSegment s3)))
           \<or> (\<exists>sp. segment_specs (validateSegmentSpecs e (destSegment s3)) = Some sp
                  \<and> \<not> truthy (address sp)))"
  then show "\<exists>err s'. writeFirmware e fb s3 = (Inl err, s') \<and> isUnknownDestination err
               \<and> dfuWrites s' = dfuWrites s3"
    using writeFirmware_unresolved [of s3 e fb] by blast
next
  fix fb and s3 :: state
  assume "\<not> truthy (destAddress s3) \<and> truthy (destSegment s3)
        \<and> \<not> truthy (segment_error (validateSegmentSpecs e (destSegment s3)))
        \<and> segment_specs (validateSegmentSpecs e (destSegment s3)) = None"
  then show "writeFirmware e fb s3 = (Inl (TypeError ''segment.specs.address''), s3)"
    by (intro writeFirmware_no_entry) simp_all
qed

lemma example_no_segments_run:
  "flashDfu example_no_segments example_state =
     (Inl (ErrorWritingFirmware (SegmentError ''segment has no specs'')),
      example_state\<lparr>specs := deviceSpecs example_env ''2b04:d006'',
        destSegment := Some ''userFirmware'', targetDevice := Some ''2b04:d006''\<rparr>)"
  by (simp add: flash_defs example_defs example_no_segments_def)

lemma example_run:
  "flashDfu example_env example_state =
     (Inr (),
      example_state\<lparr>specs := deviceSpecs example_env ''2b04:d006'',
        destSegment := Some ''userFirmware'', destAddress := Some ''0x080A0000'',
        targetDevice := Some ''2b04:d006'',
        dfuWrites := [WriteDfu 0 (Some ''firmware.bin'') (Some ''0x080A0000'') True
                        (Some ''2b04:d006'')]\<rparr>)"
  by (simp add: flash_defs example_defs)

theorem write_only_with_address_witness:
  "\<not> truthy (destAddress (snd (flashDfu example_no_segments example_state)))
   \<and> dfuWrites (snd (flashDfu example_no_segments example_state)) = []
   \<and> (\<exists>err. fst (flashDfu example_no_segments example_state)
          = Inl (ErrorWritingFirmware err))
   \<and> fst (flashDfu example_env example_state) = Inr ()
   \<and> truthy (destAddress (snd (flashDfu example_env example_state)))
   \<and> dfuWrites (snd (flashDfu example_env example_state)) \<noteq> []"
proof -
  note failing = write_only_with_address [where e = example_no_segments and s = example_state]
  note working = write_only_with_address [where e = example_env and s = example_state]
  have unresolved: "\<not> truthy (destAddress (snd (flashDfu example_no_segments example_state)))"
    unfolding example_no_segments_run by (simp add: example_defs)
  have ok: "fst (flashDfu example_env example_state) = Inr ()"
    by (simp add: example_run)
  have none: "dfuWrites example_state = []"
    by (simp add: example_defs)
  from failing [THEN conjunct2, THEN conjunct2, THEN conjunct1] unresolved
  have 1: "dfuWrites (snd (flashDfu example_no_segments example_state)) = dfuWrites example_state
     \<and> (\<exists>err. fst (flashDfu example_no_segments example_state)
            = Inl (ErrorWritingFirmware err))"
    by blast
  from working [THEN conjunct2, THEN conjunct1] ok
  have 2: "truthy (destAddress (snd (flashDfu example_env example_state)))
     \<and> dfuWrites (snd (flashDfu example_env example_state)) \<noteq> dfuWrites example_state"
    by blast
  from unresolved ok 1 2 none show ?thesis by simp
qed

subsection \<open>Leaving the bootloader\<close>

lemma writeFirmware_destSegment: "destSegment (snd (writeFirmware e fb s)) = destSegment s"
  using writeFirmware_cases [of e fb s] by auto

lemma inspectInfo_user_part:
  assumes "moduleFunction (prefixInfo info) = USER_PART"
    and "inspectInfo e info s = (r, s')"
  shows "destSegment s' = destSegment s"
proof (cases "suffixSize (suffixInfo info) = 65535 \<or> (\<not> ok (crc info) \<and> \<not> force s)
    \<or> deviceSpecs e (dfuId e) = None")
  case True
  with assms(2) show ?thesis
    by (auto simp add: inspectInfo_def split: if_splits)
next
  case False
  then obtain sp where sp: "deviceSpecs e (dfuId e) = Some sp" by auto
  show ?thesis
  proof (cases "platformID (prefixInfo info) \<noteq> productId sp \<and> \<not> force s")
    case True
    with assms(2) False sp show ?thesis
      by (auto simp add: inspectInfo_def split: if_splits)
  next
    case nomismatch: False
    with assms False sp have "chooseBinary e info (s\<lparr>specs := Some sp\<rparr>) = (r, s')"
      by (auto simp add: inspectInfo_def selectSegment_def)
    then show ?thesis
      using chooseBinary_vars [of e info "s\<lparr>specs := Some sp\<rparr>" r s'] by auto
  qed
qed

text \<open>
  Claim C6. Every call of the device-write primitive made by \<^verbatim>\<open>flashDfu\<close> has as
  its leave argument the value of \<^verbatim>\<open>requestLeave\<close> when the caller gave one, and
  otherwise the truth of "the resolved segment is userFirmware"; a successful call of
  \<^verbatim>\<open>flashDfu\<close> has made such a call. With \<^verbatim>\<open>factory\<close> set and the descriptor of
  a user part, the resolved segment is factoryReset, and the leave argument is false
  unless \<^verbatim>\<open>requestLeave\<close> says otherwise.
\<close>

theorem leave_flag:
  "(dfuWrites (snd (flashDfu e s)) = dfuWrites s
      \<or> (\<exists>fb a td. dfuWrites (snd (flashDfu e s)) = dfuWrites s
            @ [WriteDfu 0 fb a
                 (case requestLeave s of Some b \<Rightarrow> b
                  | None \<Rightarrow> destSegment (snd (flashDfu e s)) = Some ''userFirmware'') td]))
   \<and> (fst (flashDfu e s) = Inr () \<longrightarrow> dfuWrites (snd (flashDfu e s)) \<noteq> dfuWrites s)
   \<and> (isDfuUtilInstalled e = None \<and> findCompatibleDFU e (device s) = Inr d
        \<and> binary s = Some f \<and> disk s f = Some (File bs) \<and> parseFile e (Some f) = Inr info
        \<and> moduleFunction (prefixInfo info) = USER_PART \<and> factory s
      \<longrightarrow> destSegment (snd (flashDfu e s)) = Some ''factoryReset''
          \<and> (dfuWrites (snd (flashDfu e s)) = dfuWrites s
              \<or> (\<exists>fb a td. dfuWrites (snd (flashDfu e s)) = dfuWrites s
                    @ [WriteDfu 0 fb a (case requestLeave s of Some b \<Rightarrow> b | None \<Rightarrow> False) td])))"
proof -
  have general: "dfuWrites (snd (flashDfu e s)) = dfuWrites s
      \<or> (\<exists>fb a td. dfuWrites (snd (flashDfu e s)) = dfuWrites s
            @ [WriteDfu 0 fb a
                 (case requestLeave s of Some b \<Rightarrow> b
                  | None \<Rightarrow> destSegment (snd (flashDfu e s)) = Some ''userFirmware'') td])"
    using flashDfu_writes [of e s] by blast
  have made: "fst (flashDfu e s) = Inr () \<longrightarrow> dfuWrites (snd (flashDfu e s)) \<noteq> dfuWrites s"
    using flashDfu_success [of e s] by simp
  have user: "destSegment (snd (flashDfu e s)) = Some ''factoryReset''"
    if pre: "isDfuUtilInstalled e = None" "findCompatibleDFU e (device s) = Inr d"
      "binary s = Some f" "disk s f = Some (File bs)" "parseFile e (Some f) = Inr info"
      and up: "moduleFunction (prefixInfo info) = USER_PART" and fa: "factory s"
  proof -
    let ?s0 = "s\<lparr>specs := None, destAddress := None, flashingKnownApp := False,
              targetDevice := Some d,
              destSegment := Some (if factory s then ''factoryReset'' else ''userFirmware'')\<rparr>"
    obtain r s1 where insp: "inspectInfo e info ?s0 = (r, s1)"
      by (cases "inspectInfo e info ?s0")
    from up insp have seg: "destSegment s1 = Some ''factoryReset''"
      using inspectInfo_user_part [of info e ?s0 r s1] fa by simp
    have "flashDfu e s = catchWrap (andThen (r, s1) (writeFirmware e))"
      using pre insp by (simp add: flashDfu_parsed [where d = d and f = f and bs = bs])
    then show ?thesis
      using seg by (cases r) (simp_all add: writeFirmware_destSegment)
  qed
  show ?thesis
  proof (intro conjI impI)
    assume h: "isDfuUtilInstalled e = None \<and> findCompatibleDFU e (device s) = Inr d
        \<and> binary s = Some f \<and> disk s f = Some (File bs) \<and> parseFile e (Some f) = Inr info
        \<and> moduleFunction (prefixInfo info) = USER_PART \<and> factory s"
    then show seg: "destSegment (snd (flashDfu e s)) = Some ''factoryReset''"
      using user by blast
    from general show "dfuWrites (snd (flashDfu e s)) = dfuWrites s
              \<or> (\<exists>fb a td. dfuWrites (snd (flashDfu e s)) = dfuWrites s
                    @ [WriteDfu 0 fb a (case requestLeave s of Some b \<Rightarrow> b | None \<Rightarrow> False) td])"
      by (simp add: seg cong: option.case_cong)
  qed (use general made in simp_all)
qed

lemma example_factory_run:
  "flashDfu example_env example_factory =
     (Inr (),
      example_factory\<lparr>specs := deviceSpecs example_env ''2b04:d006'',
        destSegment := Some ''factoryReset'', destAddress := Some ''0x080E0000'',
        targetDevice := Some ''2b04:d006'',
        dfuWrites := [WriteDfu 0 (Some ''firmware.bin'') (Some ''0x080E0000'') False
                        (Some ''2b04:d006'')]\<rparr>)"
  by (simp add: flash_defs example_defs example_factory_def)

theorem leave_flag_witness:
  "factory example_factory \<and> moduleFunction (prefixInfo example_info) = USER_PART
   \<and> requestLeave example_factory = None
   \<and> destSegment (snd (flashDfu example_env example_factory)) = Some ''factoryReset''
   \<and> dfuWrites (snd (flashDfu example_env example_factory))
       = [WriteDfu 0 (Some ''firmware.bin'') (Some ''0x080E0000'') False (Some ''2b04:d006'')]"
  using leave_flag [of example_env example_factory "''2b04:d006''" "''firmware.bin''"
      "[1, 2, 3, 4, 5]" example_info]
  by (simp add: example_factory_run) (simp add: example_defs example_factory_def)

subsection \<open>Known applications\<close>

lemma flashDfu_known_app:
  assumes "isDfuUtilInstalled e = None"
    and "findCompatibleDFU e (device s) = Inr d"
    and "binary s = Some f"
    and "disk s f = None"
    and "checkKnownApp e (Some f) = Some app"
  shows "flashDfu e s =
     catchWrap (writeFirmware e (Some app)
       (s\<lparr>specs := None, destAddress := None, targetDevice := Some d, binary := Some app,
          flashingKnownApp := True,
          destSegment := Some (if factory s then ''factoryReset'' else ''userFirmware'')\<rparr>))"
  using assms
  by (simp add: flashDfu_def checkDfuUtil_def findDevice_def findFile_def statSync_def
      parseBinary_def)

lemma writeFirmware_parser_irrelevant:
  "writeFirmware (e\<lparr>parseFile := p, deviceSpecs := ds\<rparr>) fb s = writeFirmware e fb s"
  by (simp add: writeFirmware_def lookupAddress_def Let_def andThen_def
      split: option.splits sum.splits prod.splits)

text \<open>
  Claim C7. When the path given does not exist on disk and names a known application,
  \<^verbatim>\<open>flashDfu\<close> never consults the parser or the device specification (the run is
  the same whatever they are), keeps the default segment (factoryReset with
  \<^verbatim>\<open>factory\<close>, userFirmware otherwise), and takes the address from the segment
  lookup of that segment alone: an error of the lookup (one that is not empty) is
  thrown, an address it yields is the one passed to the device-write primitive together
  with the known application, no address is the error 'Unknown destination', and no
  entry at all is a failure too.
\<close>

theorem known_app_default_segment:
  assumes "isDfuUtilInstalled e = None"
    and "findCompatibleDFU e (device s) = Inr d"
    and "binary s = Some f"
    and "disk s f = None"
    and "checkKnownApp e (Some f) = Some app"
  shows "(\<forall>p ds. flashDfu (e\<lparr>parseFile := p, deviceSpecs := ds\<rparr>) s = flashDfu e s)
     \<and> destSegment (snd (flashDfu e s))
         = Some (if factory s then ''factoryReset'' else ''userFirmware'')
     \<and> (\<forall>msg. segment_error (validateSegmentSpecs e
                  (Some (if factory s then ''factoryReset'' else ''userFirmware''))) = Some msg
            \<and> msg \<noteq> []
          \<longrightarrow> fst (flashDfu e s) = Inl (ErrorWritingFirmware (SegmentError msg))
              \<and> dfuWrites (snd (flashDfu e s)) = dfuWrites s)
     \<and> (\<forall>sp. \<not> truthy (segment_error (validateSegmentSpecs e
                  (Some (if factory s then ''factoryReset'' else ''userFirmware''))))
            \<and> segment_specs (validateSegmentSpecs e
                  (Some (if factory s then ''factoryReset'' else ''userFirmware''))) = Some sp
          \<longrightarrow> (if truthy (address sp)
               then dfuWrites (snd (flashDfu e s)) = dfuWrites s
                      @ [WriteDfu 0 (Some app) (address sp)
                           (case requestLeave s of Some b \<Rightarrow> b | None \<Rightarrow> \<not> factory s)
                           (Some d)]
               else fst (flashDfu e s) = Inl (ErrorWritingFirmware UnknownDestinationError)
                    \<and> dfuWrites (snd (flashDfu e s)) = dfuWrites s))
     \<and> (\<not> truthy (segment_error (validateSegmentSpecs e
                  (Some (if factory s then ''factoryReset'' else ''userFirmware''))))
          \<and> segment_specs (validateSegmentSpecs e
                  (Some (if factory s then ''factoryReset'' else ''userFirmware''))) = None
          \<longrightarrow> fst (flashDfu e s)
                = Inl (ErrorWritingFirmware (TypeError ''segment.specs.address''))
              \<and> dfuWrites (snd (flashDfu e s)) = dfuWrites s)"
proof -
  let ?seg = "Some (if factory s then ''factoryReset'' else ''userFirmware'')"
  let ?s0 = "s\<lparr>specs := None, destAddress := None, targetDevice := Some d, binary := Some app,
          flashingKnownApp := True, destSegment := ?seg\<rparr>"
  have run: "flashDfu e s = catchWrap (writeFirmware e (Some app) ?s0)"
    using assms by (rule flashDfu_known_app)
  have indep: "flashDfu (e\<lparr>parseFile := p, deviceSpecs := ds\<rparr>) s = flashDfu e s" for p ds
  proof -
    have "flashDfu (e\<lparr>parseFile := p, deviceSpecs := ds\<rparr>) s
        = catchWrap (writeFirmware (e\<lparr>parseFile := p, deviceSpecs := ds\<rparr>) (Some app) ?s0)"
      using assms by (intro flashDfu_known_app) simp_all
    also have "\<dots> = catchWrap (writeFirmware e (Some app) ?s0)"
      by (simp add: writeFirmware_parser_irrelevant)
    finally show ?thesis by (simp add: run)
  qed
  have seg: "destSegment (snd (flashDfu e s)) = ?seg"
    by (simp add: run writeFirmware_destSegment)
  have noaddr: "\<not> truthy (destAddress ?s0)" and hasseg: "truthy (destSegment ?s0)"
    by (simp_all add: truthy_def)
  have err: "fst (flashDfu e s) = Inl (ErrorWritingFirmware (SegmentError msg))
              \<and> dfuWrites (snd (flashDfu e s)) = dfuWrites s"
    if "segment_error (validateSegmentSpecs e ?seg) = Some msg" and "msg \<noteq> []" for msg
    using that writeFirmware_lookup_error [OF noaddr hasseg, of e msg "Some app"]
    by (simp add: run)
  have found: "if truthy (address sp)
               then dfuWrites (snd (flashDfu e s)) = dfuWrites s
                      @ [WriteDfu 0 (Some app) (address sp)
                           (case requestLeave s of Some b \<Rightarrow> b | None \<Rightarrow> \<not> factory s)
                           (Some d)]
               else fst (flashDfu e s) = Inl (ErrorWritingFirmware UnknownDestinationError)
                    \<and> dfuWrites (snd (flashDfu e s)) = dfuWrites s"
    if "\<not> truthy (segment_error (validateSegmentSpecs e ?seg))"
      and "segment_specs (validateSegmentSpecs e ?seg) = Some sp" for sp
  proof (cases "truthy (address sp)")
    case True
    then show ?thesis
      using that writeFirmware_lookup_address [OF noaddr hasseg, of e sp "Some app"]
      by (simp add: run leaveOf_def split: option.splits)
  next
    case False
    then show ?thesis
      using that by (simp add: run writeFirmware_def lookupAddress_def)
  qed
  have nospecs: "fst (flashDfu e s)
                = Inl (ErrorWritingFirmware (TypeError ''segment.specs.address''))
              \<and> dfuWrites (snd (flashDfu e s)) = dfuWrites s"
    if "\<not> truthy (segment_error (validateSegmentSpecs e ?seg))"
      and "segment_specs (validateSegmentSpecs e ?seg) = None"
    using that by (simp add: run writeFirmware_def lookupAddress_def)
  show ?thesis
  proof (intro conjI allI impI)
    show "flashDfu (e\<lparr>parseFile := p, deviceSpecs := ds\<rparr>) s = flashDfu e s" for p ds
      by (rule indep)
    show "destSegment (snd (flashDfu e s)) = ?seg" by (rule seg)
  qed (use err found nospecs in blast)+
qed

theorem known_app_default_segment_witness:
  "disk example_known_app ''tinker'' = None
   \<and> dfuWrites (snd (flashDfu example_env example_known_app))
       = [WriteDfu 0 (Some ''binaries/photon_tinker.bin'') (Some ''0x080A0000'') True
            (Some ''2b04:d006'')]
   \<and> flashDfu (example_env\<lparr>parseFile := \<lambda>_. Inl ''unreadable'', deviceSpecs := Map.empty\<rparr>)
         example_known_app
       = flashDfu example_env example_known_app"
  using known_app_default_segment [of example_env example_known_app "''2b04:d006''" "''tinker''"
      "''binaries/photon_tinker.bin''"]
  by (simp add: example_defs example_known_app_def truthy_def)

subsection \<open>Descriptors that cannot be verified\<close>

lemma writeFirmware_console: "console (snd (writeFirmware e fb s)) = console s"
  by (simp add: writeFirmware_def lookupAddress_def Let_def andThen_def
      split: option.splits sum.splits prod.splits)

lemma writeFirmware_errors:
  assumes "writeFirmware e fb s = (Inl err, s')"
  shows "err = TypeError ''segment.specs.address'' \<or> isUnknownDestination err
     \<or> (\<exists>msg. err = External DfuWrite msg)"
  using assms
  by (auto simp add: writeFirmware_def lookupAddress_def Let_def andThen_def
      isUnknownDestination_def split: option.splits if_splits)

lemma catchWrap_error:
  "fst (catchWrap r) = Inl (ErrorWritingFirmware err) \<longleftrightarrow> fst r = Inl err"
  by (cases r; cases "fst r") auto

lemma inspectInfo_unverifiable:
  "suffixSize (suffixInfo info) = 65535 \<Longrightarrow>
     inspectInfo e info s =
       (Inr None, s\<lparr>console := console s @ [''warn: unable to verify binary info'']\<rparr>)"
  by (simp add: inspectInfo_def)


text \<open>
  Claim C5. For a parsed descriptor whose suffix size is 65535, \<^verbatim>\<open>flashDfu\<close> logs
  the warning, and neither the CRC nor the platform id (nor anything else of the
  descriptor, nor the device specification) has any effect on the run. The run does not
  fail for the missing suffix: its only failures are those of the address resolution
  and of the write itself, and when the segment lookup of the default segment yields
  an address, the device-write primitive is called with it.
\<close>

theorem unverifiable_suffix:
  assumes "isDfuUtilInstalled e = None"
    and "findCompatibleDFU e (device s) = Inr d"
    and "binary s = Some f"
    and "disk s f = Some (File bs)"
    and "parseFile e (Some f) = Inr info"
    and "suffixSize (suffixInfo info) = 65535"
  shows "console (snd (flashDfu e s)) = console s @ [''warn: unable to verify binary info'']
     \<and> (\<forall>info' ds. suffixSize (suffixInfo info') = 65535 \<longrightarrow>
           flashDfu (e\<lparr>parseFile := \<lambda>_. Inr info', deviceSpecs := ds\<rparr>) s = flashDfu e s)
     \<and> (\<forall>err. fst (flashDfu e s) = Inl (ErrorWritingFirmware err) \<longrightarrow>
           err = TypeError ''segment.specs.address'' \<or> isUnknownDestination err
           \<or> (\<exists>msg. err = External DfuWrite msg))
     \<and> (\<forall>sp. segment_error (validateSegmentSpecs e
                  (Some (if factory s then ''factoryReset'' else ''userFirmware''))) = None
            \<and> segment_specs (validateSegmentSpecs e
                  (Some (if factory s then ''factoryReset'' else ''userFirmware''))) = Some sp
            \<and> truthy (address sp)
          \<longrightarrow> dfuWrites (snd (flashDfu e s)) = dfuWrites s
                 @ [WriteDfu 0 None (address sp)
                      (case requestLeave s of Some b \<Rightarrow> b | None \<Rightarrow> \<not> factory s) (Some d)])"
proof -
  let ?seg = "Some (if factory s then ''factoryReset'' else ''userFirmware'')"
  let ?s0 = "s\<lparr>specs := None, destAddress := None, flashingKnownApp := False,
              targetDevice := Some d, destSegment := ?seg\<rparr>"
  let ?s1 = "?s0\<lparr>console := console s @ [''warn: unable to verify binary info'']\<rparr>"
  have run: "flashDfu e s = catchWrap (writeFirmware e None ?s1)"
    using assms
    by (simp add: flashDfu_parsed [where d = d and f = f and bs = bs and info = info]
        inspectInfo_unverifiable)
  have warn: "console (snd (flashDfu e s)) = console s @ [''warn: unable to verify binary info'']"
    by (simp add: run writeFirmware_console)
  have indep: "flashDfu (e\<lparr>parseFile := \<lambda>_. Inr info', deviceSpecs := ds\<rparr>) s = flashDfu e s"
    if "suffixSize (suffixInfo info') = 65535" for info' ds
    using assms(1-4) that
    by (simp add: flashDfu_parsed [where d = d and f = f and bs = bs and info = info']
        inspectInfo_unverifiable writeFirmware_parser_irrelevant run)
  have errs: "err = TypeError ''segment.specs.address'' \<or> isUnknownDestination err
           \<or> (\<exists>msg. err = External DfuWrite msg)"
    if "fst (flashDfu e s) = Inl (ErrorWritingFirmware err)" for err
  proof -
    from that have "fst (writeFirmware e None ?s1) = Inl err"
      by (simp add: run catchWrap_error)
    then have "writeFirmware e None ?s1 = (Inl err, snd (writeFirmware e None ?s1))"
      by (metis prod.collapse)
    then show ?thesis by (rule writeFirmware_errors)
  qed
  have noaddr: "\<not> truthy (destAddress ?s1)" and hasseg: "truthy (destSegment ?s1)"
    by (simp_all add: truthy_def)
  have found: "dfuWrites (snd (flashDfu e s)) = dfuWrites s
                 @ [WriteDfu 0 None (address sp)
                      (case requestLeave s of Some b \<Rightarrow> b | None \<Rightarrow> \<not> factory s) (Some d)]"
    if "segment_error (validateSegmentSpecs e ?seg) = None"
      and "segment_specs (validateSegmentSpecs e ?seg) = Some sp"
      and "truthy (address sp)" for sp
    using that writeFirmware_lookup_address [OF noaddr hasseg, of e sp None]
    by (simp add: run leaveOf_def split: option.splits)
  show ?thesis
  proof (intro conjI allI impI)
    show "console (snd (flashDfu e s)) = console s @ [''warn: unable to verify binary info'']"
      by (rule warn)
  next
    fix info' :: module_info and ds
    assume "suffixSize (suffixInfo info') = 65535"
    then show "flashDfu (e\<lparr>parseFile := \<lambda>_. Inr info', deviceSpecs := ds\<rparr>) s = flashDfu e s"
      by (rule indep)
  next
    fix err
    assume "fst (flashDfu e s) = Inl (ErrorWritingFirmware err)"
    then show "err = TypeError ''segment.specs.address'' \<or> isUnknownDestination err
           \<or> (\<exists>msg. err = External DfuWrite msg)"
      by (rule errs)
  next
    fix sp
    assume "segment_error (validateSegmentSpecs e ?seg) = None
            \<and> segment_specs (validateSegmentSpecs e ?seg) = Some sp
            \<and> truthy (address sp)"
    then show "dfuWrites (snd (flashDfu e s)) = dfuWrites s
                 @ [WriteDfu 0 None (address sp)
                      (case requestLeave s of Some b \<Rightarrow> b | None \<Rightarrow> \<not> factory s) (Some d)]"
      using found by blast
  qed
qed



theorem unverifiable_suffix_witness:
  "suffixSize (suffixInfo example_unverifiable_info) = 65535
   \<and> \<not> ok (crc example_unverifiable_info)
   \<and> console (snd (flashDfu example_unverifiable example_state))
       = [''warn: unable to verify binary info'']
   \<and> dfuWrites (snd (flashDfu example_unverifiable example_state))
       = [WriteDfu 0 None (Some ''0x080A0000'') True (Some ''2b04:d006'')]"
proof -
  have h1: "isDfuUtilInstalled example_unverifiable = None"
    and h2: "findCompatibleDFU example_unverifiable (device example_state) = Inr ''2b04:d006''"
    and h3: "binary example_state = Some ''firmware.bin''"
    and h4: "disk example_state ''firmware.bin'' = Some (File [1, 2, 3, 4, 5])"
    and h5: "parseFile example_unverifiable (Some ''firmware.bin'') = Inr example_unverifiable_info"
    and h6: "suffixSize (suffixInfo example_unverifiable_info) = 65535"
    by (simp_all add: example_defs example_unverifiable_def example_unverifiable_info_def)
  note run = unverifiable_suffix [OF h1 h2 h3 h4 h5 h6]
  from run [THEN conjunct1]
  have warned: "console (snd (flashDfu example_unverifiable example_state))
       = [''warn: unable to verify binary info'']"
    by (simp add: example_defs)
  from run [THEN conjunct2, THEN conjunct2, THEN conjunct2, THEN spec,
      of "\<lparr>address = Some ''0x080A0000''\<rparr>"]
  have written: "dfuWrites (snd (flashDfu example_unverifiable example_state))
       = [WriteDfu 0 None (Some ''0x080A0000'') True (Some ''2b04:d006'')]"
    by (simp add: example_defs example_unverifiable_def truthy_def)
  from h6 warned written show ?thesis
    by (simp add: example_unverifiable_info_def example_defs)
qed

subsection \<open>System parts with another module index\<close>

lemma chooseBinary_value:
  assumes "binary s = Some f" and "disk s f = Some (File bs)"
  shows "chooseBinary e info s =
     (if moduleFlags (prefixInfo info) AND DROP_MODULE_INFO e \<noteq> 0 then
        (case tempWriteError e of
           Some msg \<Rightarrow> (Inl (External TempFile msg), s)
         | None \<Rightarrow>
             (Inr (Some (tempPath e)),
              s\<lparr>disk := (disk s)(tempPath e \<mapsto> File (drop (HEADER_SIZE e) bs))\<rparr>))
      else (Inr (Some f), s))"
  using assms by (simp add: chooseBinary_def dropModuleInfo_def)

lemma chooseBinary_errors:
  assumes "chooseBinary e info s = (Inl err, s')"
  shows "\<exists>msg. err = External TempFile msg"
  using assms
  by (auto simp add: chooseBinary_def dropModuleInfo_def
      split: if_splits option.splits node.splits)

text \<open>
  Claim C10, as the code has it. For a descriptor of a system part whose module index
  is not 1, 2 or 3, whose suffix size is other than 65535 and that passes the checks
  (or is forced), \<^verbatim>\<open>flashDfu\<close> does not fail in the
  resolution: the segment is \<^verbatim>\<open>undefined\<close>, the address is \<^verbatim>\<open>'0x0'\<close> followed
  by the descriptor's start address, and the segment table is never consulted. The only
  failures left are those of the stripped copy and of the write itself; when the copy
  is not asked for or can be written, the device-write primitive is called with this
  address and a leave argument that is false unless \<^verbatim>\<open>requestLeave\<close> is given,
  and the outcome is that of the write.
\<close>

theorem system_part_without_segment:
  assumes "isDfuUtilInstalled e = None"
    and "findCompatibleDFU e (device s) = Inr d"
    and "binary s = Some f"
    and "disk s f = Some (File bs)"
    and "parseFile e (Some f) = Inr info"
    and "suffixSize (suffixInfo info) \<noteq> 65535"
    and "ok (crc info) \<or> force s"
    and "deviceSpecs e (dfuId e) = Some sp"
    and "platformID (prefixInfo info) = productId sp \<or> force s"
    and "moduleFunction (prefixInfo info) = SYSTEM_PART"
    and "moduleIndex (prefixInfo info) \<notin> {1, 2, 3}"
  shows "destSegment (snd (flashDfu e s)) = None
     \<and> destAddress (snd (flashDfu e s)) = Some (''0x0'' @ moduleStartAddy (prefixInfo info))
     \<and> (\<forall>err. fst (flashDfu e s) = Inl (ErrorWritingFirmware err) \<longrightarrow>
           (\<exists>msg. err = External TempFile msg \<or> err = External DfuWrite msg))
     \<and> (moduleFlags (prefixInfo info) AND DROP_MODULE_INFO e = 0 \<or> tempWriteError e = None \<longrightarrow>
           (\<exists>fb. dfuWrites (snd (flashDfu e s)) = dfuWrites s
                @ [WriteDfu 0 fb (Some (''0x0'' @ moduleStartAddy (prefixInfo info)))
                     (case requestLeave s of Some b \<Rightarrow> b | None \<Rightarrow> False) (Some d)]
              \<and> fst (flashDfu e s) =
                  (case writeDfu e
                          (WriteDfu 0 fb (Some (''0x0'' @ moduleStartAddy (prefixInfo info)))
                             (case requestLeave s of Some b \<Rightarrow> b | None \<Rightarrow> False) (Some d)) of
                     Some msg \<Rightarrow> Inl (ErrorWritingFirmware (External DfuWrite msg))
                   | None \<Rightarrow> Inr ())))
     \<and> (\<forall>v. flashDfu (e\<lparr>validateSegmentSpecs := v\<rparr>) s = flashDfu e s)"
proof -
  let ?s0 = "s\<lparr>specs := None, destAddress := None, flashingKnownApp := False,
              targetDevice := Some d,
              destSegment := Some (if factory s then ''factoryReset'' else ''userFirmware'')\<rparr>"
  let ?a = "Some (''0x0'' @ moduleStartAddy (prefixInfo info))"
  let ?s1 = "?s0\<lparr>specs := Some sp, destSegment := None, destAddress := ?a\<rparr>"
  let ?lv = "case requestLeave s of Some b \<Rightarrow> b | None \<Rightarrow> False"
  have idx: "systemModuleIndexToString (moduleIndex (prefixInfo info)) = None"
    using assms(11) by (simp add: systemModuleIndexToString_def)
  have insp: "inspectInfo e info ?s0 = chooseBinary e info ?s1"
    using assms(6-10) idx by (simp add: inspectInfo_verified [where sp = sp] selectSegment_def)
  obtain r2 s2 where chosen: "chooseBinary e info ?s1 = (r2, s2)"
    by (cases "chooseBinary e info ?s1")
  from chooseBinary_vars [OF chosen] obtain dk where s2: "s2 = ?s1\<lparr>disk := dk\<rparr>" ..
  have addr: "truthy (destAddress s2)" by (simp add: s2 truthy_def)
  have lv: "leaveOf s2 = ?lv"
    by (simp add: s2 leaveOf_def split: option.splits)
  have run: "flashDfu e s = catchWrap (andThen (r2, s2) (writeFirmware e))"
    using assms(1-5) insp chosen
    by (simp add: flashDfu_parsed [where d = d and f = f and bs = bs and info = info])
  have written: "flashDfu e s =
      (case writeDfu e (WriteDfu 0 fb ?a ?lv (Some d)) of
         Some msg \<Rightarrow> Inl (ErrorWritingFirmware (External DfuWrite msg))
       | None \<Rightarrow> Inr (),
       s2\<lparr>dfuWrites := dfuWrites s @ [WriteDfu 0 fb ?a ?lv (Some d)]\<rparr>)"
    if "r2 = Inr fb" for fb
    using that addr lv
    by (simp add: run writeFirmware_resolved) (simp add: s2 split: option.splits)
  have vars: "destSegment (snd (flashDfu e s)) = None \<and> destAddress (snd (flashDfu e s)) = ?a"
  proof (cases r2)
    case (Inl err)
    then show ?thesis by (simp add: run s2)
  next
    case (Inr fb)
    then show ?thesis by (simp add: written s2)
  qed
  have errs: "\<exists>msg. err = External TempFile msg \<or> err = External DfuWrite msg"
    if failed: "fst (flashDfu e s) = Inl (ErrorWritingFirmware err)" for err
  proof (cases r2)
    case (Inl err2)
    with failed have "err = err2" by (simp add: run)
    with chosen Inl chooseBinary_errors [of e info ?s1 err s2] show ?thesis by auto
  next
    case (Inr fb)
    with failed show ?thesis by (auto simp add: written split: option.splits)
  qed
  have made: "\<exists>fb. dfuWrites (snd (flashDfu e s)) = dfuWrites s @ [WriteDfu 0 fb ?a ?lv (Some d)]
          \<and> fst (flashDfu e s) =
              (case writeDfu e (WriteDfu 0 fb ?a ?lv (Some d)) of
                 Some msg \<Rightarrow> Inl (ErrorWritingFirmware (External DfuWrite msg))
               | None \<Rightarrow> Inr ())"
    if "moduleFlags (prefixInfo info) AND DROP_MODULE_INFO e = 0 \<or> tempWriteError e = None"
  proof -
    have "\<exists>fb s'. chooseBinary e info ?s1 = (Inr fb, s')"
      using assms(3,4) that
      by (cases "moduleFlags (prefixInfo info) AND DROP_MODULE_INFO e = 0")
         (auto simp add: chooseBinary_value [where f = f and bs = bs])
    with chosen obtain fb where "r2 = Inr fb" by auto
    then show ?thesis by (intro exI [of _ fb]) (simp add: written)
  qed
  have indep: "flashDfu (e\<lparr>validateSegmentSpecs := v\<rparr>) s = flashDfu e s" for v
  proof -
    have "flashDfu (e\<lparr>validateSegmentSpecs := v\<rparr>) s =
        catchWrap (andThen (r2, s2) (writeFirmware (e\<lparr>validateSegmentSpecs := v\<rparr>)))"
      using assms(1-5) insp chosen
      by (simp add: flashDfu_parsed [where d = d and f = f and bs = bs and info = info]
          inspectInfo_validate_irrelevant)
    also have "\<dots> = catchWrap (andThen (r2, s2) (writeFirmware e))"
      using addr by (cases r2) (simp_all add: writeFirmware_validate_irrelevant)
    finally show ?thesis by (simp add: run)
  qed
  show ?thesis
  proof (intro conjI allI impI)
    show "destSegment (snd (flashDfu e s)) = None" using vars by simp
    show "destAddress (snd (flashDfu e s)) = ?a" using vars by simp
    show "\<exists>msg. err = External TempFile msg \<or> err = External DfuWrite msg"
      if "fst (flashDfu e s) = Inl (ErrorWritingFirmware err)" for err
      using that by (rule errs)
    show "\<exists>fb. dfuWrites (snd (flashDfu e s)) = dfuWrites s @ [WriteDfu 0 fb ?a ?lv (Some d)]
          \<and> fst (flashDfu e s) =
              (case writeDfu e (WriteDfu 0 fb ?a ?lv (Some d)) of
                 Some msg \<Rightarrow> Inl (ErrorWritingFirmware (External DfuWrite msg))
               | None \<Rightarrow> Inr ())"
      if "moduleFlags (prefixInfo info) AND DROP_MODULE_INFO e = 0 \<or> tempWriteError e = None"
      using that by (rule made)
    show "flashDfu (e\<lparr>validateSegmentSpecs := v\<rparr>) s = flashDfu e s" for v
      by (rule indep)
  qed
qed

text \<open>
  Claim C10 speaks of every descriptor of a system part with a module index outside 1,
  2 and 3. It does not hold when the suffix size is 65535: the descriptor callback
  returns after the warning, before the module function is looked at. Here the module
  index is 9 and the call is forced, with no \<^verbatim>\<open>requestLeave\<close>: the segment stays
  userFirmware, the address is the one of the segment table, not the start address of
  the descriptor, and the leave argument is true; and with a segment table without
  entries the call fails in the resolution, with the error of the lookup, and nothing
  is written.
\<close>

theorem system_part_without_segment_counterexample:
  "parseFile (example_sentinel 9) (binary example_forced) = Inr (example_sentinel_info 9)
   \<and> parseFile (example_sentinel_no_segments 9) (binary example_forced)
       = Inr (example_sentinel_info 9)
   \<and> moduleFunction (prefixInfo (example_sentinel_info 9)) = SYSTEM_PART
   \<and> moduleIndex (prefixInfo (example_sentinel_info 9)) = 9
   \<and> moduleStartAddy (prefixInfo (example_sentinel_info 9)) = ''8020000''
   \<and> ok (crc (example_sentinel_info 9))
   \<and> deviceSpecs (example_sentinel 9) (dfuId (example_sentinel 9))
       = Some \<lparr>productId = platformID (prefixInfo (example_sentinel_info 9)),
               systemFirmwareOne = Some \<lparr>address = Some ''0x08020000''\<rparr>\<rparr>
   \<and> force example_forced
   \<and> requestLeave example_forced = None
   \<and> suffixSize (suffixInfo (example_sentinel_info 9)) = 65535
   \<and> destSegment (snd (flashDfu (example_sentinel 9) example_forced)) = Some ''userFirmware''
   \<and> destAddress (snd (flashDfu (example_sentinel 9) example_forced)) = Some ''0x080A0000''
   \<and> dfuWrites (snd (flashDfu (example_sentinel 9) example_forced))
       = [WriteDfu 0 None (Some ''0x080A0000'') True (Some ''2b04:d006'')]
   \<and> validateSegmentSpecs (example_sentinel_no_segments 9) (Some ''userFirmware'')
       = \<lparr>segment_error = Some ''segment has no specs'', segment_specs = None\<rparr>
   \<and> fst (flashDfu (example_sentinel_no_segments 9) example_forced)
       = Inl (ErrorWritingFirmware (SegmentError ''segment has no specs''))
   \<and> dfuWrites (snd (flashDfu (example_sentinel_no_segments 9) example_forced)) = []"
  by (simp add: flash_defs example_defs example_system_info_def example_sentinel_info_def
      example_sentinel_def example_sentinel_no_segments_def example_no_segments_def
      example_forced_def)

theorem system_part_without_segment_witness:
  "moduleFunction (prefixInfo (example_system_info 9)) = SYSTEM_PART
   \<and> moduleIndex (prefixInfo (example_system_info 9)) = 9
   \<and> destSegment (snd (flashDfu (example_system_env 9) example_state)) = None
   \<and> destAddress (snd (flashDfu (example_system_env 9) example_state)) = Some ''0x08020000''
   \<and> (\<exists>fb. dfuWrites (snd (flashDfu (example_system_env 9) example_state))
              = [WriteDfu 0 fb (Some ''0x08020000'') False (Some ''2b04:d006'')])
   \<and> fst (flashDfu (example_system_env 9) example_state) = Inr ()"
proof -
  have h: "isDfuUtilInstalled (example_system_env 9) = None"
    "findCompatibleDFU (example_system_env 9) (device example_state) = Inr ''2b04:d006''"
    "binary example_state = Some ''firmware.bin''"
    "disk example_state ''firmware.bin'' = Some (File [1, 2, 3, 4, 5])"
    "parseFile (example_system_env 9) (Some ''firmware.bin'') = Inr (example_system_info 9)"
    "suffixSize (suffixInfo (example_system_info 9)) \<noteq> 65535"
    "ok (crc (example_system_info 9)) \<or> force example_state"
    "deviceSpecs (example_system_env 9) (dfuId (example_system_env 9))
       = Some \<lparr>productId = 6, systemFirmwareOne = Some \<lparr>address = Some ''0x08020000''\<rparr>\<rparr>"
    "platformID (prefixInfo (example_system_info 9))
       = productId \<lparr>productId = 6, systemFirmwareOne = Some \<lparr>address = Some ''0x08020000''\<rparr>\<rparr>
     \<or> force example_state"
    "moduleFunction (prefixInfo (example_system_info 9)) = SYSTEM_PART"
    "moduleIndex (prefixInfo (example_system_info 9)) \<notin> {1, 2, 3}"
    by (simp_all add: example_defs example_system_env_def example_system_info_def)
  have copy: "moduleFlags (prefixInfo (example_system_info 9))
        AND DROP_MODULE_INFO (example_system_env 9) = 0
     \<or> tempWriteError (example_system_env 9) = None"
    by (simp add: example_defs example_system_env_def example_system_info_def)
  note run = system_part_without_segment [OF h]
  have vals: "moduleStartAddy (prefixInfo (example_system_info 9)) = ''8020000''"
    "moduleIndex (prefixInfo (example_system_info 9)) = 9"
    "requestLeave example_state = None" "dfuWrites example_state = []"
    "writeDfu (example_system_env 9) = (\<lambda>_. None)"
    by (simp_all add: example_defs example_system_env_def example_system_info_def)
  from run [THEN conjunct1] run [THEN conjunct2, THEN conjunct1]
    run [THEN conjunct2, THEN conjunct2, THEN conjunct2, THEN conjunct1, rule_format, OF copy]
    h(10) vals
  show ?thesis by auto
qed

subsection \<open>An invalid CRC\<close>

lemma selectSegment_crc_irrelevant:
  "selectSegment (info\<lparr>crc := c\<rparr>) sp s = selectSegment info sp s"
  by (simp add: selectSegment_def split: function_type.splits)

lemma chooseBinary_crc_irrelevant:
  "chooseBinary e (info\<lparr>crc := c\<rparr>) = chooseBinary e info"
  by (intro ext) (simp add: chooseBinary_def)

lemma inspectInfo_forced_crc:
  "force s \<Longrightarrow> inspectInfo e (info\<lparr>crc := c\<rparr>) s = inspectInfo e info s"
  by (simp add: inspectInfo_def selectSegment_crc_irrelevant chooseBinary_crc_irrelevant Let_def
      split: option.splits)

lemma chooseBinary_parser_irrelevant:
  "chooseBinary (e\<lparr>parseFile := p\<rparr>) = chooseBinary e"
  by (intro ext) (simp add: chooseBinary_def dropModuleInfo_def split: option.splits node.splits)

lemma inspectInfo_parser_irrelevant:
  "inspectInfo (e\<lparr>parseFile := p\<rparr>) info s = inspectInfo e info s"
  by (simp add: inspectInfo_def chooseBinary_parser_irrelevant Let_def split: option.splits)

lemma writeFirmware_parser_only_irrelevant:
  "writeFirmware (e\<lparr>parseFile := p\<rparr>) = writeFirmware e"
  by (intro ext) (simp add: writeFirmware_def lookupAddress_def Let_def andThen_def
      split: option.splits sum.splits prod.splits)

text \<open>
  Claim C2, as the code has it. For a parsed descriptor with an invalid CRC and a suffix
  size other than 65535: without \<^verbatim>\<open>force\<close>, \<^verbatim>\<open>flashDfu\<close> fails with the error
  'CRC is invalid' and writes nothing; with \<^verbatim>\<open>force\<close>, the CRC has no effect, and
  the run is the run of the same image with a valid CRC: it succeeds with the same
  segment and address when that one does, and fails as that one does otherwise.
\<close>

theorem crc_invalid_resolution:
  assumes "isDfuUtilInstalled e = None"
    and "findCompatibleDFU e (device s) = Inr d"
    and "binary s = Some f"
    and "disk s f = Some (File bs)"
    and "parseFile e (Some f) = Inr info"
    and "suffixSize (suffixInfo info) \<noteq> 65535"
    and "\<not> ok (crc info)"
  shows "(\<not> force s \<longrightarrow>
            fst (flashDfu e s) = Inl (ErrorWritingFirmware CRCIsInvalid)
            \<and> dfuWrites (snd (flashDfu e s)) = dfuWrites s)
     \<and> (force s \<longrightarrow>
            flashDfu e s
              = flashDfu (e\<lparr>parseFile := \<lambda>_. Inr (info\<lparr>crc := \<lparr>ok = True\<rparr>\<rparr>)\<rparr>) s)"
proof (intro conjI impI)
  assume "\<not> force s"
  with assms show "fst (flashDfu e s) = Inl (ErrorWritingFirmware CRCIsInvalid)"
    and "dfuWrites (snd (flashDfu e s)) = dfuWrites s"
    by (simp_all add: flashDfu_parsed [where d = d and f = f and bs = bs and info = info]
        inspectInfo_def)
next
  assume fo: "force s"
  let ?e = "e\<lparr>parseFile := \<lambda>_. Inr (info\<lparr>crc := \<lparr>ok = True\<rparr>\<rparr>)\<rparr>"
  let ?s0 = "s\<lparr>specs := None, destAddress := None, flashingKnownApp := False,
              targetDevice := Some d,
              destSegment := Some (if factory s then ''factoryReset'' else ''userFirmware'')\<rparr>"
  have "flashDfu ?e s =
      catchWrap (andThen (inspectInfo ?e (info\<lparr>crc := \<lparr>ok = True\<rparr>\<rparr>) ?s0) (writeFirmware ?e))"
    using assms(1-4)
    by (intro flashDfu_parsed [where d = d and f = f and bs = bs]) simp_all
  also have "\<dots> = catchWrap (andThen (inspectInfo e info ?s0) (writeFirmware e))"
    using fo
    by (simp add: inspectInfo_parser_irrelevant inspectInfo_forced_crc
        writeFirmware_parser_only_irrelevant)
  also have "\<dots> = flashDfu e s"
    using assms(1-5)
    by (simp add: flashDfu_parsed [where d = d and f = f and bs = bs and info = info])
  finally show "flashDfu e s = flashDfu ?e s" by simp
qed


text \<open>
  Claim C2 says that with \<^verbatim>\<open>force\<close> the resolution succeeds. It need not: here the
  CRC is invalid, \<^verbatim>\<open>force\<close> and \<^verbatim>\<open>factory\<close> are set, the segment table has no
  entry for factoryReset, and the call fails with the error of the lookup.
\<close>

theorem forced_crc_counterexample:
  "parseFile example_no_factory_reset (binary example_forced_factory) = Inr example_corrupt_info
   \<and> \<not> ok (crc example_corrupt_info)
   \<and> suffixSize (suffixInfo example_corrupt_info) \<noteq> 65535
   \<and> force example_forced_factory
   \<and> fst (flashDfu example_no_factory_reset example_forced_factory)
       = Inl (ErrorWritingFirmware (SegmentError ''segment has no specs''))
   \<and> dfuWrites (snd (flashDfu example_no_factory_reset example_forced_factory)) = []"
  by (simp add: flash_defs example_defs example_corrupt_info_def example_corrupt_def
      example_no_factory_reset_def example_forced_factory_def)

theorem crc_invalid_resolution_witness:
  "\<not> ok (crc example_corrupt_info)
   \<and> fst (flashDfu example_corrupt example_state) = Inl (ErrorWritingFirmware CRCIsInvalid)
   \<and> flashDfu example_corrupt example_forced
       = flashDfu (example_corrupt\<lparr>parseFile :=
                     \<lambda>_. Inr (example_corrupt_info\<lparr>crc := \<lparr>ok = True\<rparr>\<rparr>)\<rparr>) example_forced"
proof -
  have h: "isDfuUtilInstalled example_corrupt = None"
    "findCompatibleDFU example_corrupt (device example_state) = Inr ''2b04:d006''"
    "binary example_state = Some ''firmware.bin''"
    "disk example_state ''firmware.bin'' = Some (File [1, 2, 3, 4, 5])"
    "parseFile example_corrupt (Some ''firmware.bin'') = Inr example_corrupt_info"
    "suffixSize (suffixInfo example_corrupt_info) \<noteq> 65535"
    "\<not> ok (crc example_corrupt_info)"
    by (simp_all add: example_defs example_corrupt_def example_corrupt_info_def)
  have h': "findCompatibleDFU example_corrupt (device example_forced) = Inr ''2b04:d006''"
    "binary example_forced = Some ''firmware.bin''"
    "disk example_forced ''firmware.bin'' = Some (File [1, 2, 3, 4, 5])"
    by (simp_all add: example_defs example_corrupt_def example_forced_def)
  have unforced: "\<not> force example_state" and forced: "force example_forced"
    by (simp_all add: example_defs example_forced_def)
  from crc_invalid_resolution [OF h, THEN conjunct1] unforced
  have 1: "fst (flashDfu example_corrupt example_state) = Inl (ErrorWritingFirmware CRCIsInvalid)"
    by simp
  from crc_invalid_resolution [OF h(1) h' h(5-7), THEN conjunct2] forced
  have 2: "flashDfu example_corrupt example_forced
       = flashDfu (example_corrupt\<lparr>parseFile :=
                     \<lambda>_. Inr (example_corrupt_info\<lparr>crc := \<lparr>ok = True\<rparr>\<rparr>)\<rparr>) example_forced"
    by simp
  from h(7) 1 2 show ?thesis by simp
qed

subsection \<open>The image that is written\<close>

lemma writeFirmware_disk: "disk (snd (writeFirmware e fb s)) = disk s"
  by (simp add: writeFirmware_def lookupAddress_def Let_def andThen_def
      split: option.splits sum.splits prod.splits)

lemma inspectInfo_verifiable_cases:
  assumes "suffixSize (suffixInfo info) \<noteq> 65535"
  shows "(\<exists>err s'. inspectInfo e info s = (Inl err, s') \<and> disk s' = disk s
            \<and> dfuWrites s' = dfuWrites s)
     \<or> (\<exists>s'. inspectInfo e info s = chooseBinary e info s' \<and> disk s' = disk s
            \<and> binary s' = binary s \<and> dfuWrites s' = dfuWrites s)"
proof (cases "(\<not> ok (crc info) \<and> \<not> force s) \<or> deviceSpecs e (dfuId e) = None")
  case True
  with assms show ?thesis by (auto simp add: inspectInfo_def)
next
  case False
  then obtain sp where sp: "deviceSpecs e (dfuId e) = Some sp" by auto
  show ?thesis
  proof (cases "platformID (prefixInfo info) \<noteq> productId sp \<and> \<not> force s")
    case True
    with assms False sp show ?thesis by (auto simp add: inspectInfo_def)
  next
    case platform: False
    obtain r s1 where sel: "selectSegment info sp (s\<lparr>specs := Some sp\<rparr>) = (r, s1)"
      by (cases "selectSegment info sp (s\<lparr>specs := Some sp\<rparr>)")
    then have frame: "disk s1 = disk s \<and> binary s1 = binary s \<and> dfuWrites s1 = dfuWrites s"
      by (auto simp add: selectSegment_def split: function_type.splits if_splits)
    from assms False sp platform sel
    have "inspectInfo e info s = andThen (r, s1) (\<lambda>_. chooseBinary e info)"
      by (auto simp add: inspectInfo_def)
    with frame show ?thesis by (cases r) auto
  qed
qed

text \<open>
  For a descriptor that can be verified, the image is the one the flag selects: with
  the flag, a new file at the temporary path that holds the bytes of the original after
  the header, the original file being as it was; without the flag, the original file,
  and the disk is unchanged. (The temporary path is new, and the copy can be written.)
\<close>

lemma verified_image_delivered:
  assumes "isDfuUtilInstalled e = None"
    and "findCompatibleDFU e (device s) = Inr d"
    and "binary s = Some f"
    and "disk s f = Some (File bs)"
    and "parseFile e (Some f) = Inr info"
    and "suffixSize (suffixInfo info) \<noteq> 65535"
    and "tempWriteError e = None"
    and "disk s (tempPath e) = None"
  shows "if moduleFlags (prefixInfo info) AND DROP_MODULE_INFO e \<noteq> 0
     then disk (snd (flashDfu e s)) f = Some (File bs)
        \<and> (dfuWrites (snd (flashDfu e s)) = dfuWrites s
           \<or> disk (snd (flashDfu e s)) (tempPath e) = Some (File (drop (HEADER_SIZE e) bs))
             \<and> (\<exists>a lv td. dfuWrites (snd (flashDfu e s))
                    = dfuWrites s @ [WriteDfu 0 (Some (tempPath e)) a lv td]))
     else disk (snd (flashDfu e s)) = disk s
        \<and> (dfuWrites (snd (flashDfu e s)) = dfuWrites s
           \<or> (\<exists>a lv td. dfuWrites (snd (flashDfu e s))
                    = dfuWrites s @ [WriteDfu 0 (Some f) a lv td]))"
proof -
  let ?s0 = "s\<lparr>specs := None, destAddress := None, flashingKnownApp := False,
              targetDevice := Some d,
              destSegment := Some (if factory s then ''factoryReset'' else ''userFirmware'')\<rparr>"
  have run: "flashDfu e s = catchWrap (andThen (inspectInfo e info ?s0) (writeFirmware e))"
    using assms(1-5) by (rule flashDfu_parsed)
  from assms(8) assms(3,4) have fresh: "tempPath e \<noteq> f" by auto
  from inspectInfo_verifiable_cases [OF assms(6), of e ?s0] consider
    (failed) err s' where "inspectInfo e info ?s0 = (Inl err, s')" "disk s' = disk s"
      "dfuWrites s' = dfuWrites s"
    | (chosen) s' where "inspectInfo e info ?s0 = chooseBinary e info s'" "disk s' = disk s"
      "binary s' = Some f" "dfuWrites s' = dfuWrites s"
    using assms(3) by auto
  then show ?thesis
  proof cases
    case failed
    with assms(4) show ?thesis by (simp add: run)
  next
    case chosen
    from chosen(2,3) assms(4) have here: "binary s' = Some f" "disk s' f = Some (File bs)"
      by simp_all
    show ?thesis
    proof (cases "moduleFlags (prefixInfo info) AND DROP_MODULE_INFO e \<noteq> 0")
      case True
      let ?s2 = "s'\<lparr>disk := (disk s')(tempPath e \<mapsto> File (drop (HEADER_SIZE e) bs))\<rparr>"
      from True assms(7) have "chooseBinary e info s' = (Inr (Some (tempPath e)), ?s2)"
        by (simp add: chooseBinary_value [OF here])
      with chosen(1) have fin: "flashDfu e s = catchWrap (writeFirmware e (Some (tempPath e)) ?s2)"
        by (simp add: run)
      have dk: "disk (snd (flashDfu e s)) = (disk s)(tempPath e \<mapsto> File (drop (HEADER_SIZE e) bs))"
        by (simp add: fin writeFirmware_disk chosen(2))
      from writeFirmware_cases [of e "Some (tempPath e)" ?s2]
      have "dfuWrites (snd (flashDfu e s)) = dfuWrites s
          \<or> (\<exists>a lv td. dfuWrites (snd (flashDfu e s))
                    = dfuWrites s @ [WriteDfu 0 (Some (tempPath e)) a lv td])"
        by (auto simp add: fin chosen(4))
      with True dk fresh assms(4) show ?thesis by auto
    next
      case False
      then have "chooseBinary e info s' = (Inr (Some f), s')"
        by (simp add: chooseBinary_value [OF here])
      with chosen(1) have fin: "flashDfu e s = catchWrap (writeFirmware e (Some f) s')"
        by (simp add: run)
      have dk: "disk (snd (flashDfu e s)) = disk s"
        by (simp add: fin writeFirmware_disk chosen(2))
      from writeFirmware_cases [of e "Some f" s']
      have "dfuWrites (snd (flashDfu e s)) = dfuWrites s
          \<or> (\<exists>a lv td. dfuWrites (snd (flashDfu e s))
                    = dfuWrites s @ [WriteDfu 0 (Some f) a lv td])"
        by (auto simp add: fin chosen(4))
      with False dk show ?thesis by auto
    qed
  qed
qed

text \<open>
  Claim C4 at a descriptor whose suffix size is 65535 and whose flag
  \<^verbatim>\<open>DROP_MODULE_INFO\<close> is not set: the call succeeds, and the device-write
  primitive receives \<^verbatim>\<open>undefined\<close> as the image, not the file
  \<^verbatim>\<open>firmware.bin\<close> that was given.
\<close>

theorem unverifiable_image_undefined:
  "binary example_state = Some ''firmware.bin''
   \<and> parseFile example_unverifiable (binary example_state) = Inr example_unverifiable_info
   \<and> suffixSize (suffixInfo example_unverifiable_info) = 65535
   \<and> moduleFlags (prefixInfo example_unverifiable_info) AND DROP_MODULE_INFO example_unverifiable = 0
   \<and> fst (flashDfu example_unverifiable example_state) = Inr ()
   \<and> dfuWrites (snd (flashDfu example_unverifiable example_state))
       = [WriteDfu 0 None (Some ''0x080A0000'') True (Some ''2b04:d006'')]"
  by (simp add: flash_defs example_defs example_unverifiable_def example_unverifiable_info_def)

subsection \<open>The device argument in USB mode\<close>

lemma lookupDeviceId_id:
  "isDeviceId e dev \<Longrightarrow> lookupDeviceId e dev = Inr dev"
  by (simp add: lookupDeviceId_def)

text \<open>
  Claim C9. In USB mode, with a non-empty files list and a device argument, the first
  file is the image passed to \<^verbatim>\<open>flashDfu\<close> (whatever \<^verbatim>\<open>binary\<close> was). A device
  argument that is a device id is passed on as it is. A device argument that is a
  name is not passed on: it is looked up in the directory, and the id found takes its
  place; when the lookup fails, or finds no id, \<^verbatim>\<open>flash\<close> fails with
  'Device ID lookup failed' (wrapping the cause, if any) before \<^verbatim>\<open>flashDfu\<close> is
  called.
\<close>

theorem usb_device_argument:
  assumes "usb opts" and "fls = f # rest" and "truthy dev"
  shows "(isDeviceId e dev \<longrightarrow>
            flash e dev bin fls opts s =
              andThen
                (flashDfu e (s\<lparr>device := dev, binary := Some f, factory := factory_opt opts,
                               force := force_opt opts, requestLeave := None\<rparr>))
                (\<lambda>_ s'. (Inr (), s'\<lparr>console := console s' @ [CHR 0x0A # ''Flash success!'']\<rparr>)))
     \<and> (\<not> isDeviceId e dev \<longrightarrow>
          (case getDevice e dev of
             Inl msg \<Rightarrow>
               flash e dev bin fls opts s
                 = (Inl (DeviceLookupFailed (Some (External DeviceDirectory msg))), s)
           | Inr None \<Rightarrow> flash e dev bin fls opts s = (Inl (DeviceLookupFailed None), s)
           | Inr (Some di) \<Rightarrow>
               if truthy (device_id di) then
                 flash e dev bin fls opts s =
                   andThen
                     (flashDfu e (s\<lparr>device := device_id di, binary := Some f,
                                    factory := factory_opt opts, force := force_opt opts,
                                    requestLeave := None\<rparr>))
                     (\<lambda>_ s'. (Inr (), s'\<lparr>console := console s' @ [CHR 0x0A # ''Flash success!'']\<rparr>))
               else flash e dev bin fls opts s = (Inl (DeviceLookupFailed None), s)))"
  using assms
  by (auto simp add: flash_def lookupDeviceId_def split: sum.splits option.splits)


theorem usb_device_argument_witness:
  "\<not> isDeviceId example_env (Some ''my-photon'')
   \<and> fst (flash example_env (Some ''my-photon'') None [''firmware.bin''] example_usb example_state)
       = Inr ()
   \<and> device (snd (flash example_env (Some ''my-photon'') None [''firmware.bin''] example_usb
         example_state)) = Some ''0123456789abcdef01234567''
   \<and> flash example_env (Some ''old-core'') None [''firmware.bin''] example_usb example_state
       = (Inl (DeviceLookupFailed (Some (External DeviceDirectory ''not found''))), example_state)"
proof -
  have names: "\<not> isDeviceId example_env (Some ''my-photon'')"
    "\<not> isDeviceId example_env (Some ''old-core'')"
    "getDevice example_env (Some ''my-photon'')
       = Inr (Some \<lparr>device_id = Some ''0123456789abcdef01234567''\<rparr>)"
    "getDevice example_env (Some ''old-core'') = Inl ''not found''"
    by (simp_all add: example_defs)
  have h: "usb example_usb" "[''firmware.bin''] = ''firmware.bin'' # []"
    "truthy (Some ''my-photon'')" "truthy (Some ''old-core'')"
    by (simp_all add: example_usb_def truthy_def)
  from usb_device_argument [OF h(1,2,3), of example_env None example_state, THEN conjunct2]
    names(1,3)
  have found: "flash example_env (Some ''my-photon'') None [''firmware.bin''] example_usb
      example_state =
        andThen
          (flashDfu example_env
             (example_state\<lparr>device := Some ''0123456789abcdef01234567'',
                binary := Some ''firmware.bin'', factory := factory_opt example_usb,
                force := force_opt example_usb, requestLeave := None\<rparr>))
          (\<lambda>_ s'. (Inr (), s'\<lparr>console := console s' @ [CHR 0x0A # ''Flash success!'']\<rparr>))"
    by (simp add: truthy_def)
  from usb_device_argument [OF h(1,2,4), of example_env None example_state, THEN conjunct2]
    names(2,4)
  have failed: "flash example_env (Some ''old-core'') None [''firmware.bin''] example_usb
      example_state
       = (Inl (DeviceLookupFailed (Some (External DeviceDirectory ''not found''))), example_state)"
    by simp
  from names(1) failed show ?thesis
    by (simp add: found) (simp add: flash_defs example_defs example_usb_def)
qed

subsection \<open>What force changes\<close>

lemma withForce_pair [simp]: "withForce b (r, s) = (r, s\<lparr>force := b\<rparr>)"
  by (simp add: withForce_def)

lemma andThen_withForce:
  assumes "\<And>x s. f x (s\<lparr>force := b\<rparr>) = withForce b (f x s)"
  shows "andThen (withForce b p) f = withForce b (andThen p f)"
  using assms by (cases p; cases "fst p") auto

lemma catchWrap_withForce: "catchWrap (withForce b r) = withForce b (catchWrap r)"
  by (cases r; cases "fst r") auto

lemma checkDfuUtil_withForce: "checkDfuUtil e (s\<lparr>force := b\<rparr>) = withForce b (checkDfuUtil e s)"
  by (simp add: checkDfuUtil_def split: option.splits)

lemma findDevice_withForce: "findDevice e (s\<lparr>force := b\<rparr>) = withForce b (findDevice e s)"
  by (simp add: findDevice_def split: sum.splits)

lemma findFile_withForce: "findFile e (s\<lparr>force := b\<rparr>) = withForce b (findFile e s)"
  by (simp add: findFile_def statSync_def Let_def split: option.splits)

lemma chooseBinary_withForce:
  "chooseBinary e info (s\<lparr>force := b\<rparr>) = withForce b (chooseBinary e info s)"
  by (simp add: chooseBinary_def dropModuleInfo_def split: option.splits node.splits)

lemma writeFirmware_withForce:
  "writeFirmware e fb (s\<lparr>force := b\<rparr>) = withForce b (writeFirmware e fb s)"
  by (simp add: writeFirmware_def lookupAddress_def Let_def andThen_def leaveOf_def truthy_def
      split: option.splits)

lemma selectSegment_withForce:
  assumes "\<And>err. fst (selectSegment info sp s) = Inl err \<Longrightarrow> \<not> suppressible err"
  shows "selectSegment info sp (s\<lparr>force := True\<rparr>) = withForce True (selectSegment info sp s)"
  using assms
  by (auto simp add: selectSegment_def suppressible_def split: function_type.splits if_splits)


lemma force_commute:
  "s\<lparr>force := b, specs := x\<rparr> = s\<lparr>specs := x, force := b\<rparr>"
  "s\<lparr>force := b, destSegment := y\<rparr> = s\<lparr>destSegment := y, force := b\<rparr>"
  "s\<lparr>force := b, destAddress := z\<rparr> = s\<lparr>destAddress := z, force := b\<rparr>"
  "s\<lparr>force := b, flashingKnownApp := k\<rparr> = s\<lparr>flashingKnownApp := k, force := b\<rparr>"
  "s\<lparr>force := b, targetDevice := t\<rparr> = s\<lparr>targetDevice := t, force := b\<rparr>"
  by (cases s; simp)+

lemma inspectInfo_withForce:
  assumes "\<And>err. fst (inspectInfo e info s) = Inl err \<Longrightarrow> \<not> suppressible err"
  shows "inspectInfo e info (s\<lparr>force := True\<rparr>) = withForce True (inspectInfo e info s)"
proof (cases "suffixSize (suffixInfo info) = 65535")
  case True
  then show ?thesis by (simp add: inspectInfo_def)
next
  case verifiable: False
  show ?thesis
  proof (cases "\<not> ok (crc info) \<and> \<not> force s")
    case True
    with verifiable assms [of CRCIsInvalid] show ?thesis
      by (simp add: inspectInfo_def suppressible_def)
  next
    case crc: False
    show ?thesis
    proof (cases "deviceSpecs e (dfuId e)")
      case None
      with verifiable crc show ?thesis by (auto simp add: inspectInfo_def)
    next
      case (Some sp)
      show ?thesis
      proof (cases "platformID (prefixInfo info) \<noteq> productId sp \<and> \<not> force s")
        case True
        with verifiable crc Some
          assms [of "IncorrectPlatformId (productId sp) (platformID (prefixInfo info))"]
        show ?thesis by (auto simp add: inspectInfo_def suppressible_def)
      next
        case platform: False
        let ?s1 = "s\<lparr>specs := Some sp\<rparr>"
        from verifiable crc Some platform
        have unforced: "inspectInfo e info s =
            andThen (selectSegment info sp ?s1) (\<lambda>_. chooseBinary e info)"
          by (auto simp add: inspectInfo_def)
        from verifiable Some
        have forced: "inspectInfo e info (s\<lparr>force := True\<rparr>) =
            andThen (selectSegment info sp (?s1\<lparr>force := True\<rparr>)) (\<lambda>_. chooseBinary e info)"
          by (simp add: inspectInfo_def force_commute)
        have "\<not> suppressible err" if "fst (selectSegment info sp ?s1) = Inl err" for err
        proof -
          from that have "fst (inspectInfo e info s) = Inl err"
            by (cases "selectSegment info sp ?s1") (simp add: unforced)
          then show ?thesis by (rule assms)
        qed
        then have "selectSegment info sp (?s1\<lparr>force := True\<rparr>)
            = withForce True (selectSegment info sp ?s1)"
          by (rule selectSegment_withForce)
        then show ?thesis
          by (simp add: forced unforced andThen_withForce chooseBinary_withForce)
      qed
    qed
  qed
qed

lemma parseBinary_withForce:
  assumes "\<And>err. fst (parseBinary e s) = Inl err \<Longrightarrow> \<not> suppressible err"
  shows "parseBinary e (s\<lparr>force := True\<rparr>) = withForce True (parseBinary e s)"
proof (cases "flashingKnownApp s")
  case True
  then show ?thesis by (simp add: parseBinary_def)
next
  case False
  show ?thesis
  proof (cases "parseFile e (binary s)")
    case (Inl msg)
    with False show ?thesis by (simp add: parseBinary_def)
  next
    case (Inr info)
    let ?s = "s\<lparr>destSegment := Some (if factory s then ''factoryReset'' else ''userFirmware'')\<rparr>"
    from False Inr have unforced: "parseBinary e s = inspectInfo e info ?s"
      by (simp add: parseBinary_def)
    from False Inr have forced:
      "parseBinary e (s\<lparr>force := True\<rparr>) = inspectInfo e info (?s\<lparr>force := True\<rparr>)"
      by (simp add: parseBinary_def force_commute)
    have "inspectInfo e info (?s\<lparr>force := True\<rparr>) = withForce True (inspectInfo e info ?s)"
      by (rule inspectInfo_withForce) (use assms unforced in simp)
    then show ?thesis by (simp add: forced unforced)
  qed
qed


lemma andThen_error_cases:
  assumes "fst (andThen p f) = Inl err"
  obtains (before) "fst p = Inl err" | (here) x where "fst p = Inr x" "fst (f x (snd p)) = Inl err"
  using assms by (cases p; cases "fst p") auto

lemma flashDfu_chain:
  "\<exists>p3 :: unit result.
     flashDfu e s = catchWrap (andThen (andThen p3 (\<lambda>_. parseBinary e)) (writeFirmware e))
     \<and> flashDfu e (s\<lparr>force := True\<rparr>) =
         catchWrap (andThen (andThen (withForce True p3) (\<lambda>_. parseBinary e)) (writeFirmware e))
     \<and> sameCall s (snd p3)
     \<and> (\<forall>err. fst p3 = Inl err \<longrightarrow> \<not> suppressible err)"
proof -
  let ?i = "s\<lparr>specs := None, destSegment := None, destAddress := None,
                 flashingKnownApp := False, targetDevice := None\<rparr>"
  let ?p1 = "andThen (Inr (), ?i) (\<lambda>_. checkDfuUtil e)"
  let ?p2 = "andThen ?p1 (\<lambda>_. findDevice e)"
  let ?p3 = "andThen ?p2 (\<lambda>_. findFile e)"
  have run: "flashDfu e s =
      catchWrap (andThen (andThen ?p3 (\<lambda>_. parseBinary e)) (writeFirmware e))"
    by (simp add: flashDfu_def del: andThen_simps)
  have "flashDfu e (s\<lparr>force := True\<rparr>) =
      catchWrap (andThen (andThen (andThen (andThen (andThen (withForce True (Inr (), ?i))
        (\<lambda>_. checkDfuUtil e)) (\<lambda>_. findDevice e)) (\<lambda>_. findFile e)) (\<lambda>_. parseBinary e))
        (writeFirmware e))"
    by (simp add: flashDfu_def force_commute del: andThen_simps)
  then have forced: "flashDfu e (s\<lparr>force := True\<rparr>) =
      catchWrap (andThen (andThen (withForce True ?p3) (\<lambda>_. parseBinary e)) (writeFirmware e))"
    by (simp only: andThen_withForce checkDfuUtil_withForce findDevice_withForce
        findFile_withForce)
  have 0: "sameCall s ?i" by (simp add: sameCall_def)
  have 1: "sameCall s (snd ?p1)"
    by (rule andThen_sameCall [of "(Inr (), ?i)" "\<lambda>_. checkDfuUtil e" "fst ?p1"])
       (simp_all add: 0 checkDfuUtil_sameCall del: andThen_simps)
  have 2: "sameCall s (snd ?p2)"
    by (rule andThen_sameCall [of ?p1 "\<lambda>_. findDevice e" "fst ?p2"])
       (simp_all add: 1 findDevice_sameCall del: andThen_simps)
  have 3: "sameCall s (snd ?p3)"
    by (rule andThen_sameCall [of ?p2 "\<lambda>_. findFile e" "fst ?p3"])
       (simp_all add: 2 findFile_sameCall del: andThen_simps)
  have e1: "\<not> suppressible err" if "fst ?p1 = Inl err" for err
    using that by (auto simp add: checkDfuUtil_def suppressible_def split: option.splits)
  have e2: "\<not> suppressible err" if "fst ?p2 = Inl err" for err
    using that
  proof (cases rule: andThen_error_cases)
    case before
    then show ?thesis by (rule e1)
  next
    case (here x)
    then show ?thesis
      by (auto simp add: findDevice_def suppressible_def split: sum.splits)
  qed
  have e3: "\<not> suppressible err" if "fst ?p3 = Inl err" for err
    using that
  proof (cases rule: andThen_error_cases)
    case before
    then show ?thesis by (rule e2)
  next
    case (here x)
    then show ?thesis
      by (auto simp add: findFile_def suppressible_def Let_def split: option.splits if_splits)
  qed
  from run forced 3 e3 show ?thesis by blast
qed


lemma parseBinary_forced_errors:
  assumes "force s" and "fst (parseBinary e s) = Inl err"
  shows "\<not> suppressible err"
proof -
  have sel: "\<exists>s'. selectSegment info sp t = (Inr (), s')" if "force t" for info sp t
    using that by (simp add: selectSegment_def split: function_type.splits)
  have ch: "\<not> suppressible err'" if "fst (chooseBinary e info t) = Inl err'" for info t err'
    using that
    by (auto simp add: chooseBinary_def dropModuleInfo_def suppressible_def
        split: if_splits option.splits node.splits)
  have insp: "\<not> suppressible err'" if "force t" "fst (inspectInfo e info t) = Inl err'"
    for info t err'
  proof (cases "deviceSpecs e (dfuId e)")
    case None
    with that show ?thesis
      by (auto simp add: inspectInfo_def suppressible_def split: if_splits)
  next
    case (Some sp)
    from sel [of "t\<lparr>specs := Some sp\<rparr>" info sp] that(1)
    obtain s' where "selectSegment info sp (t\<lparr>specs := Some sp\<rparr>) = (Inr (), s')" by auto
    with that Some have "fst (chooseBinary e info s') = Inl err'"
      by (auto simp add: inspectInfo_def split: if_splits)
    then show ?thesis by (rule ch)
  qed
  show ?thesis
  proof (cases "flashingKnownApp s")
    case True
    with assms(2) show ?thesis by (simp add: parseBinary_def)
  next
    case False
    show ?thesis
    proof (cases "parseFile e (binary s)")
      case (Inl msg)
      with False assms(2) show ?thesis by (auto simp add: parseBinary_def suppressible_def)
    next
      case (Inr info)
      with False assms(2) have "fst (inspectInfo e info
          (s\<lparr>destSegment := Some (if factory s then ''factoryReset'' else ''userFirmware'')\<rparr>))
          = Inl err"
        by (simp add: parseBinary_def)
      with assms(1) show ?thesis by (intro insp [of _ info]) simp_all
    qed
  qed
qed

lemma writeFirmware_not_suppressible:
  assumes "fst (writeFirmware e fb s) = Inl err"
  shows "\<not> suppressible err"
proof -
  from assms have "writeFirmware e fb s = (Inl err, snd (writeFirmware e fb s))"
    by (metis prod.collapse)
  from writeFirmware_errors [OF this] show ?thesis
    by (auto simp add: suppressible_def isUnknownDestination_def split: error.splits)
qed

lemma flashDfu_forced_errors:
  assumes "force s" and "fst (flashDfu e s) = Inl (ErrorWritingFirmware err)"
  shows "\<not> suppressible err"
proof -
  obtain p3 :: "unit result" where run:
    "flashDfu e s = catchWrap (andThen (andThen p3 (\<lambda>_. parseBinary e)) (writeFirmware e))"
    and forced: "flashDfu e (s\<lparr>force := True\<rparr>) =
      catchWrap (andThen (andThen (withForce True p3) (\<lambda>_. parseBinary e)) (writeFirmware e))"
    and same: "sameCall s (snd p3)"
    and e3: "\<And>err. fst p3 = Inl err \<Longrightarrow> \<not> suppressible err"
    using flashDfu_chain [of e s] by blast
  from assms(2) have "fst (andThen (andThen p3 (\<lambda>_. parseBinary e)) (writeFirmware e)) = Inl err"
    by (simp add: run catchWrap_error)
  then show ?thesis
  proof (cases rule: andThen_error_cases)
    case before
    then show ?thesis
    proof (cases rule: andThen_error_cases)
      case before
      then show ?thesis by (rule e3)
    next
      case (here x)
      from same assms(1) have "force (snd p3)" by (simp add: sameCall_def)
      then show ?thesis using here(2) by (rule parseBinary_forced_errors)
    qed
  next
    case (here fb)
    then show ?thesis by (intro writeFirmware_not_suppressible [of e fb])
  qed
qed

lemma flashDfu_withForce:
  assumes "\<And>err. fst (flashDfu e s) = Inl (ErrorWritingFirmware err) \<Longrightarrow> \<not> suppressible err"
  shows "flashDfu e (s\<lparr>force := True\<rparr>) = withForce True (flashDfu e s)"
proof -
  obtain p3 :: "unit result" where run:
    "flashDfu e s = catchWrap (andThen (andThen p3 (\<lambda>_. parseBinary e)) (writeFirmware e))"
    and forced: "flashDfu e (s\<lparr>force := True\<rparr>) =
      catchWrap (andThen (andThen (withForce True p3) (\<lambda>_. parseBinary e)) (writeFirmware e))"
    and same: "sameCall s (snd p3)"
    and e3: "\<And>err. fst p3 = Inl err \<Longrightarrow> \<not> suppressible err"
    using flashDfu_chain [of e s] by blast
  obtain r3 s3 where p3: "p3 = (r3, s3)" by (cases p3)
  show ?thesis
  proof (cases r3)
    case (Inl err)
    then show ?thesis by (simp add: run forced p3)
  next
    case (Inr u)
    have "\<not> suppressible err" if "fst (parseBinary e s3) = Inl err" for err
    proof -
      from that have "fst (flashDfu e s) = Inl (ErrorWritingFirmware err)"
        by (cases "parseBinary e s3") (simp add: run p3 Inr)
      then show ?thesis by (rule assms)
    qed
    then have "parseBinary e (s3\<lparr>force := True\<rparr>) = withForce True (parseBinary e s3)"
      by (rule parseBinary_withForce)
    then show ?thesis
      by (simp add: run forced p3 Inr andThen_withForce writeFirmware_withForce
          catchWrap_withForce)
  qed
qed


lemma flashDfu_parse_failure:
  assumes "isDfuUtilInstalled e = None"
    and "findCompatibleDFU e (device s) = Inr d"
    and "binary s = Some f"
    and "disk s f = Some (File bs)"
    and "parseFile e (Some f) = Inl msg"
  shows "fst (flashDfu e s)
      = Inl (ErrorWritingFirmware (CouldNotParse (Some f) (External ModuleParser msg)))"
    and "dfuWrites (snd (flashDfu e s)) = dfuWrites s"
  using assms
  by (simp_all add: flashDfu_def checkDfuUtil_def findDevice_def findFile_def statSync_def
      parseBinary_def)

lemma flashDfu_file_not_found:
  assumes "isDfuUtilInstalled e = None"
    and "findCompatibleDFU e (device s) = Inr d"
    and "statSync s (binary s) = None"
    and "checkKnownApp e (binary s) = None"
  shows "fst (flashDfu e s) = Inl (ErrorWritingFirmware FileNotFound)"
    and "dfuWrites (snd (flashDfu e s)) = dfuWrites s"
  using assms
  by (simp_all add: flashDfu_def checkDfuUtil_def findDevice_def findFile_def statSync_def
      split: option.splits)

lemma flashDfu_unforced_failures:
  assumes "isDfuUtilInstalled e = None"
    and "findCompatibleDFU e (device s) = Inr d"
    and "binary s = Some f"
    and "disk s f = Some (File bs)"
    and "parseFile e (Some f) = Inr info"
    and "suffixSize (suffixInfo info) \<noteq> 65535"
    and "\<not> force s"
  shows "\<not> ok (crc info) \<Longrightarrow> fst (flashDfu e s) = Inl (ErrorWritingFirmware CRCIsInvalid)"
    and "ok (crc info) \<Longrightarrow> deviceSpecs e (dfuId e) = Some sp \<Longrightarrow>
         platformID (prefixInfo info) \<noteq> productId sp \<Longrightarrow>
         fst (flashDfu e s) = Inl (ErrorWritingFirmware
           (IncorrectPlatformId (productId sp) (platformID (prefixInfo info))))"
    and "ok (crc info) \<Longrightarrow> deviceSpecs e (dfuId e) = Some sp \<Longrightarrow>
         platformID (prefixInfo info) = productId sp \<Longrightarrow>
         moduleFunction (prefixInfo info) = OTHER n \<Longrightarrow>
         fst (flashDfu e s) = Inl (ErrorWritingFirmware (UnknownModuleFunctionCode n))"
  using assms
  by (simp_all add: flashDfu_parsed [where d = d and f = f and bs = bs and info = info]
      inspectInfo_def selectSegment_def)

lemma selectSegment_platform_irrelevant:
  "selectSegment (info\<lparr>prefixInfo := (prefixInfo info)\<lparr>platformID := p\<rparr>\<rparr>) sp s
     = selectSegment info sp s"
  by (simp add: selectSegment_def split: function_type.splits)

lemma chooseBinary_platform_irrelevant:
  "chooseBinary e (info\<lparr>prefixInfo := (prefixInfo info)\<lparr>platformID := p\<rparr>\<rparr>) = chooseBinary e info"
  by (intro ext) (simp add: chooseBinary_def)

lemma inspectInfo_forced_platform:
  "force s \<Longrightarrow>
     inspectInfo e (info\<lparr>prefixInfo := (prefixInfo info)\<lparr>platformID := p\<rparr>\<rparr>) s
       = inspectInfo e info s"
  by (simp add: inspectInfo_def selectSegment_platform_irrelevant
      chooseBinary_platform_irrelevant Let_def split: option.splits)

lemma selectSegment_forced_other:
  "force s \<Longrightarrow> moduleFunction (prefixInfo info) = OTHER n \<Longrightarrow>
     selectSegment (info\<lparr>prefixInfo := (prefixInfo info)\<lparr>moduleFunction := USER_PART\<rparr>\<rparr>) sp s
       = selectSegment info sp s"
  by (simp add: selectSegment_def)

lemma chooseBinary_function_irrelevant:
  "chooseBinary e (info\<lparr>prefixInfo := (prefixInfo info)\<lparr>moduleFunction := m\<rparr>\<rparr>)
     = chooseBinary e info"
  by (intro ext) (simp add: chooseBinary_def)

lemma inspectInfo_forced_other:
  "force s \<Longrightarrow> moduleFunction (prefixInfo info) = OTHER n \<Longrightarrow>
     inspectInfo e (info\<lparr>prefixInfo := (prefixInfo info)\<lparr>moduleFunction := USER_PART\<rparr>\<rparr>) s
       = inspectInfo e info s"
  by (simp add: inspectInfo_def selectSegment_forced_other [where n = n]
      chooseBinary_function_irrelevant Let_def split: option.splits)

lemma flashDfu_same_descriptor:
  assumes "isDfuUtilInstalled e = None"
    and "findCompatibleDFU e (device s) = Inr d"
    and "binary s = Some f"
    and "disk s f = Some (File bs)"
    and "parseFile e (Some f) = Inr info"
    and "\<And>t. force t = force s \<Longrightarrow> inspectInfo e info' t = inspectInfo e info t"
  shows "flashDfu e s = flashDfu (e\<lparr>parseFile := \<lambda>_. Inr info'\<rparr>) s"
proof -
  let ?e = "e\<lparr>parseFile := \<lambda>_. Inr info'\<rparr>"
  let ?s0 = "s\<lparr>specs := None, destAddress := None, flashingKnownApp := False,
              targetDevice := Some d,
              destSegment := Some (if factory s then ''factoryReset'' else ''userFirmware'')\<rparr>"
  have "flashDfu ?e s = catchWrap (andThen (inspectInfo ?e info' ?s0) (writeFirmware ?e))"
    using assms(1-4)
    by (intro flashDfu_parsed [where d = d and f = f and bs = bs]) simp_all
  also have "\<dots> = catchWrap (andThen (inspectInfo e info ?s0) (writeFirmware e))"
    by (simp add: inspectInfo_parser_irrelevant writeFirmware_parser_only_irrelevant
        assms(6))
  also have "\<dots> = flashDfu e s"
    using assms(1-5)
    by (simp add: flashDfu_parsed [where d = d and f = f and bs = bs and info = info])
  finally show ?thesis by simp
qed

lemma flashDfu_forced_continues:
  assumes "force s"
    and "isDfuUtilInstalled e = None"
    and "findCompatibleDFU e (device s) = Inr d"
    and "binary s = Some f"
    and "disk s f = Some (File bs)"
    and "parseFile e (Some f) = Inr info"
  shows "flashDfu e s = flashDfu (e\<lparr>parseFile := \<lambda>_. Inr (info\<lparr>crc := \<lparr>ok = True\<rparr>\<rparr>)\<rparr>) s"
    and "flashDfu e s = flashDfu (e\<lparr>parseFile :=
           \<lambda>_. Inr (info\<lparr>prefixInfo := (prefixInfo info)\<lparr>platformID := p\<rparr>\<rparr>)\<rparr>) s"
    and "moduleFunction (prefixInfo info) = OTHER n \<Longrightarrow>
         flashDfu e s = flashDfu (e\<lparr>parseFile :=
           \<lambda>_. Inr (info\<lparr>prefixInfo := (prefixInfo info)\<lparr>moduleFunction := USER_PART\<rparr>\<rparr>)\<rparr>) s"
proof -
  show "flashDfu e s = flashDfu (e\<lparr>parseFile := \<lambda>_. Inr (info\<lparr>crc := \<lparr>ok = True\<rparr>\<rparr>)\<rparr>) s"
    using assms(2-6)
    by (rule flashDfu_same_descriptor) (simp add: assms(1) inspectInfo_forced_crc)
  show "flashDfu e s = flashDfu (e\<lparr>parseFile :=
           \<lambda>_. Inr (info\<lparr>prefixInfo := (prefixInfo info)\<lparr>platformID := p\<rparr>\<rparr>)\<rparr>) s"
    using assms(2-6)
    by (rule flashDfu_same_descriptor) (simp add: assms(1) inspectInfo_forced_platform)
  show "flashDfu e s = flashDfu (e\<lparr>parseFile :=
           \<lambda>_. Inr (info\<lparr>prefixInfo := (prefixInfo info)\<lparr>moduleFunction := USER_PART\<rparr>\<rparr>)\<rparr>) s"
    if "moduleFunction (prefixInfo info) = OTHER n"
    using assms(2-6)
    by (rule flashDfu_same_descriptor)
       (simp add: assms(1) that inspectInfo_forced_other [where n = n])
qed

text \<open>
  Claim C8. With \<^verbatim>\<open>force\<close>, \<^verbatim>\<open>flashDfu\<close> never fails with one of the three
  errors 'CRC is invalid', 'Incorrect platform id' and 'unknown module function'; and
  a call whose outcome is not one of these three errors has the same outcome, and the
  same final state, with \<^verbatim>\<open>force\<close>: no other failure is suppressed. Without
  \<^verbatim>\<open>force\<close> the three are fatal, each where its check fails. In particular, with
  \<^verbatim>\<open>force\<close>, a file that cannot be parsed, a missing file that is no known
  application, and a destination that cannot be resolved still end the call with their
  errors, and nothing is written. And with \<^verbatim>\<open>force\<close> each of the three checks
  is passed over, not turned into another failure: the run of a parsed descriptor is
  the run of the same descriptor with a valid CRC, the run of the same descriptor with
  the platform id of the device, and, for an unknown module function, the run of the
  same descriptor as a user part.
\<close>

theorem force_scope:
  "(force s \<longrightarrow>
      (\<forall>err. fst (flashDfu e s) = Inl (ErrorWritingFirmware err) \<longrightarrow> \<not> suppressible err))
   \<and> ((\<forall>err. fst (flashDfu e s) = Inl (ErrorWritingFirmware err) \<longrightarrow> \<not> suppressible err)
        \<longrightarrow> flashDfu e (s\<lparr>force := True\<rparr>)
              = (fst (flashDfu e s), (snd (flashDfu e s))\<lparr>force := True\<rparr>))
   \<and> (isDfuUtilInstalled e = None \<and> findCompatibleDFU e (device s) = Inr d
        \<and> binary s = Some f \<and> disk s f = Some (File bs) \<and> parseFile e (Some f) = Inr info
        \<and> suffixSize (suffixInfo info) \<noteq> 65535 \<and> \<not> force s
      \<longrightarrow> (\<not> ok (crc info) \<longrightarrow>
             fst (flashDfu e s) = Inl (ErrorWritingFirmware CRCIsInvalid))
          \<and> (ok (crc info) \<and> deviceSpecs e (dfuId e) = Some sp
               \<and> platformID (prefixInfo info) \<noteq> productId sp \<longrightarrow>
             fst (flashDfu e s) = Inl (ErrorWritingFirmware
               (IncorrectPlatformId (productId sp) (platformID (prefixInfo info)))))
          \<and> (ok (crc info) \<and> deviceSpecs e (dfuId e) = Some sp
               \<and> platformID (prefixInfo info) = productId sp
               \<and> moduleFunction (prefixInfo info) = OTHER n \<longrightarrow>
             fst (flashDfu e s) = Inl (ErrorWritingFirmware (UnknownModuleFunctionCode n))))
   \<and> (force s \<and> isDfuUtilInstalled e = None \<and> findCompatibleDFU e (device s) = Inr d
        \<and> binary s = Some f \<and> disk s f = Some (File bs) \<and> parseFile e (Some f) = Inl msg
      \<longrightarrow> fst (flashDfu e s)
            = Inl (ErrorWritingFirmware (CouldNotParse (Some f) (External ModuleParser msg)))
          \<and> dfuWrites (snd (flashDfu e s)) = dfuWrites s)
   \<and> (force s \<and> isDfuUtilInstalled e = None \<and> findCompatibleDFU e (device s) = Inr d
        \<and> statSync s (binary s) = None \<and> checkKnownApp e (binary s) = None
      \<longrightarrow> fst (flashDfu e s) = Inl (ErrorWritingFirmware FileNotFound)
          \<and> dfuWrites (snd (flashDfu e s)) = dfuWrites s)
   \<and> (\<forall>fb s3.
        force s3 \<and> \<not> truthy (destAddress s3)
        \<and> (\<not> truthy (destSegment s3)
           \<or> truthy (segment_error (validateSegmentSpecs e (destSegment s3)))
           \<or> (\<exists>sp. segment_specs (validateSegmentSpecs e (destSegment s3)) = Some sp
                  \<and> \<not> truthy (address sp)))
        \<longrightarrow> (\<exists>err s'. writeFirmware e fb s3 = (Inl err, s') \<and> isUnknownDestination err
               \<and> dfuWrites s' = dfuWrites s3))
   \<and> (force s \<and> isDfuUtilInstalled e = None \<and> findCompatibleDFU e (device s) = Inr d
        \<and> binary s = Some f \<and> disk s f = Some (File bs) \<and> parseFile e (Some f) = Inr info
      \<longrightarrow> flashDfu e s
            = flashDfu (e\<lparr>parseFile := \<lambda>_. Inr (info\<lparr>crc := \<lparr>ok = True\<rparr>\<rparr>)\<rparr>) s
          \<and> (\<forall>dsp. deviceSpecs e (dfuId e) = Some dsp \<longrightarrow>
                flashDfu e s
                  = flashDfu (e\<lparr>parseFile := \<lambda>_. Inr (info\<lparr>prefixInfo :=
                       (prefixInfo info)\<lparr>platformID := productId dsp\<rparr>\<rparr>)\<rparr>) s)
          \<and> (\<forall>m. moduleFunction (prefixInfo info) = OTHER m \<longrightarrow>
                flashDfu e s
                  = flashDfu (e\<lparr>parseFile := \<lambda>_. Inr (info\<lparr>prefixInfo :=
                       (prefixInfo info)\<lparr>moduleFunction := USER_PART\<rparr>\<rparr>)\<rparr>) s))"
proof -
  have scope: "(force s \<longrightarrow>
      (\<forall>err. fst (flashDfu e s) = Inl (ErrorWritingFirmware err) \<longrightarrow> \<not> suppressible err))
   \<and> ((\<forall>err. fst (flashDfu e s) = Inl (ErrorWritingFirmware err) \<longrightarrow> \<not> suppressible err)
        \<longrightarrow> flashDfu e (s\<lparr>force := True\<rparr>)
              = (fst (flashDfu e s), (snd (flashDfu e s))\<lparr>force := True\<rparr>))
   \<and> (isDfuUtilInstalled e = None \<and> findCompatibleDFU e (device s) = Inr d
        \<and> binary s = Some f \<and> disk s f = Some (File bs) \<and> parseFile e (Some f) = Inr info
        \<and> suffixSize (suffixInfo info) \<noteq> 65535 \<and> \<not> force s
      \<longrightarrow> (\<not> ok (crc info) \<longrightarrow>
             fst (flashDfu e s) = Inl (ErrorWritingFirmware CRCIsInvalid))
          \<and> (ok (crc info) \<and> deviceSpecs e (dfuId e) = Some sp
               \<and> platformID (prefixInfo info) \<noteq> productId sp \<longrightarrow>
             fst (flashDfu e s) = Inl (ErrorWritingFirmware
               (IncorrectPlatformId (productId sp) (platformID (prefixInfo info)))))
          \<and> (ok (crc info) \<and> deviceSpecs e (dfuId e) = Some sp
               \<and> platformID (prefixInfo info) = productId sp
               \<and> moduleFunction (prefixInfo info) = OTHER n \<longrightarrow>
             fst (flashDfu e s) = Inl (ErrorWritingFirmware (UnknownModuleFunctionCode n))))
   \<and> (force s \<and> isDfuUtilInstalled e = None \<and> findCompatibleDFU e (device s) = Inr d
        \<and> binary s = Some f \<and> disk s f = Some (File bs) \<and> parseFile e (Some f) = Inl msg
      \<longrightarrow> fst (flashDfu e s)
            = Inl (ErrorWritingFirmware (CouldNotParse (Some f) (External ModuleParser msg)))
          \<and> dfuWrites (snd (flashDfu e s)) = dfuWrites s)
   \<and> (force s \<and> isDfuUtilInstalled e = None \<and> findCompatibleDFU e (device s) = Inr d
        \<and> statSync s (binary s) = None \<and> checkKnownApp e (binary s) = None
      \<longrightarrow> fst (flashDfu e s) = Inl (ErrorWritingFirmware FileNotFound)
          \<and> dfuWrites (snd (flashDfu e s)) = dfuWrites s)
   \<and> (\<forall>fb s3.
        force s3 \<and> \<not> truthy (destAddress s3)
        \<and> (\<not> truthy (destSegment s3)
           \<or> truthy (segment_error (validateSegmentSpecs e (destSegment s3)))
           \<or> (\<exists>sp. segment_specs (validateSegmentSpecs e (destSegment s3)) = Some sp
                  \<and> \<not> truthy (address sp)))
        \<longrightarrow> (\<exists>err s'. writeFirmware e fb s3 = (Inl err, s') \<and> isUnknownDestination err
               \<and> dfuWrites s' = dfuWrites s3))"
  proof (intro conjI allI impI)
    fix err
    assume "force s" "fst (flashDfu e s) = Inl (ErrorWritingFirmware err)"
    then show "\<not> suppressible err" by (rule flashDfu_forced_errors)
  next
    assume "\<forall>err. fst (flashDfu e s) = Inl (ErrorWritingFirmware err) \<longrightarrow> \<not> suppressible err"
    then have "flashDfu e (s\<lparr>force := True\<rparr>) = withForce True (flashDfu e s)"
      by (intro flashDfu_withForce) blast
    then show "flashDfu e (s\<lparr>force := True\<rparr>)
        = (fst (flashDfu e s), (snd (flashDfu e s))\<lparr>force := True\<rparr>)"
      by (simp add: withForce_def)
  next
    fix fb and s3 :: state
    assume "force s3 \<and> \<not> truthy (destAddress s3)
          \<and> (\<not> truthy (destSegment s3)
             \<or> truthy (segment_error (validateSegmentSpecs e (destSegment s3)))
             \<or> (\<exists>sp. segment_specs (validateSegmentSpecs e (destSegment s3)) = Some sp
                    \<and> \<not> truthy (address sp)))"
    then show "\<exists>err s'. writeFirmware e fb s3 = (Inl err, s') \<and> isUnknownDestination err
                 \<and> dfuWrites s' = dfuWrites s3"
      using writeFirmware_unresolved [of s3 e fb] by blast
  qed (simp_all add: flashDfu_parse_failure flashDfu_file_not_found flashDfu_unforced_failures)
  have continues: "flashDfu e s
            = flashDfu (e\<lparr>parseFile := \<lambda>_. Inr (info\<lparr>crc := \<lparr>ok = True\<rparr>\<rparr>)\<rparr>) s
          \<and> (\<forall>dsp. deviceSpecs e (dfuId e) = Some dsp \<longrightarrow>
                flashDfu e s
                  = flashDfu (e\<lparr>parseFile := \<lambda>_. Inr (info\<lparr>prefixInfo :=
                       (prefixInfo info)\<lparr>platformID := productId dsp\<rparr>\<rparr>)\<rparr>) s)
          \<and> (\<forall>m. moduleFunction (prefixInfo info) = OTHER m \<longrightarrow>
                flashDfu e s
                  = flashDfu (e\<lparr>parseFile := \<lambda>_. Inr (info\<lparr>prefixInfo :=
                       (prefixInfo info)\<lparr>moduleFunction := USER_PART\<rparr>\<rparr>)\<rparr>) s)"
    if "force s \<and> isDfuUtilInstalled e = None \<and> findCompatibleDFU e (device s) = Inr d
        \<and> binary s = Some f \<and> disk s f = Some (File bs) \<and> parseFile e (Some f) = Inr info"
  proof -
    from that have h: "force s" "isDfuUtilInstalled e = None"
      "findCompatibleDFU e (device s) = Inr d" "binary s = Some f"
      "disk s f = Some (File bs)" "parseFile e (Some f) = Inr info"
      by simp_all
    show ?thesis
      by (intro conjI allI impI)
         (rule flashDfu_forced_continues [OF h]; assumption?)+
  qed
  note c1 = scope [THEN conjunct1]
    and c2 = scope [THEN conjunct2, THEN conjunct1]
    and c3 = scope [THEN conjunct2, THEN conjunct2, THEN conjunct1]
    and c4 = scope [THEN conjunct2, THEN conjunct2, THEN conjunct2, THEN conjunct1]
    and c5 = scope [THEN conjunct2, THEN conjunct2, THEN conjunct2, THEN conjunct2,
        THEN conjunct1]
    and c6 = scope [THEN conjunct2, THEN conjunct2, THEN conjunct2, THEN conjunct2,
        THEN conjunct2]
  show ?thesis
    by (intro conjI) (rule c1, rule c2, rule c3, rule c4, rule c5, rule c6,
        rule impI, rule continues)
qed


theorem force_scope_witness:
  "fst (flashDfu example_corrupt example_state) = Inl (ErrorWritingFirmware CRCIsInvalid)
   \<and> fst (flashDfu example_corrupt example_forced) = Inr ()
   \<and> fst (flashDfu example_no_segments example_state)
       = Inl (ErrorWritingFirmware (SegmentError ''segment has no specs''))
   \<and> fst (flashDfu example_no_segments (example_state\<lparr>force := True\<rparr>))
       = Inl (ErrorWritingFirmware (SegmentError ''segment has no specs''))
   \<and> fst (flashDfu example_unparsable example_forced)
       = Inl (ErrorWritingFirmware
           (CouldNotParse (Some ''firmware.bin'') (External ModuleParser ''not a module'')))
   \<and> flashDfu example_corrupt example_forced
       = flashDfu (example_corrupt\<lparr>parseFile :=
            \<lambda>_. Inr (example_corrupt_info\<lparr>crc := \<lparr>ok = True\<rparr>\<rparr>)\<rparr>) example_forced"
proof -
  note scope = force_scope [where e = example_no_segments and s = example_state]
  have unsuppressed: "\<forall>err. fst (flashDfu example_no_segments example_state)
      = Inl (ErrorWritingFirmware err) \<longrightarrow> \<not> suppressible err"
    by (simp add: example_no_segments_run suppressible_def)
  from scope [THEN conjunct2, THEN conjunct1] unsuppressed
  have kept: "flashDfu example_no_segments (example_state\<lparr>force := True\<rparr>)
      = (fst (flashDfu example_no_segments example_state),
         (snd (flashDfu example_no_segments example_state))\<lparr>force := True\<rparr>)"
    by blast
  have h: "force example_forced" "isDfuUtilInstalled example_unparsable = None"
    "findCompatibleDFU example_unparsable (device example_forced) = Inr ''2b04:d006''"
    "binary example_forced = Some ''firmware.bin''"
    "disk example_forced ''firmware.bin'' = Some (File [1, 2, 3, 4, 5])"
    "parseFile example_unparsable (Some ''firmware.bin'') = Inl ''not a module''"
    by (simp_all add: example_defs example_forced_def example_unparsable_def)
  from force_scope [where e = example_unparsable and s = example_forced
      and d = "''2b04:d006''" and f = "''firmware.bin''" and bs = "[1, 2, 3, 4, 5]"
      and msg = "''not a module''",
      THEN conjunct2, THEN conjunct2, THEN conjunct2, THEN conjunct1] h
  have unparsed: "fst (flashDfu example_unparsable example_forced)
       = Inl (ErrorWritingFirmware
           (CouldNotParse (Some ''firmware.bin'') (External ModuleParser ''not a module'')))"
    by blast
  have crc: "fst (flashDfu example_corrupt example_state) = Inl (ErrorWritingFirmware CRCIsInvalid)"
    "fst (flashDfu example_corrupt example_forced) = Inr ()"
    by (simp_all add: flash_defs example_defs example_corrupt_def example_corrupt_info_def
        example_forced_def)
  have h': "force example_forced \<and> isDfuUtilInstalled example_corrupt = None
    \<and> findCompatibleDFU example_corrupt (device example_forced) = Inr ''2b04:d006''
    \<and> binary example_forced = Some ''firmware.bin''
    \<and> disk example_forced ''firmware.bin'' = Some (File [1, 2, 3, 4, 5])
    \<and> parseFile example_corrupt (Some ''firmware.bin'') = Inr example_corrupt_info"
    by (simp add: example_defs example_forced_def example_corrupt_def)
  note continues = force_scope [where e = example_corrupt and s = example_forced
      and d = "''2b04:d006''" and f = "''firmware.bin''" and bs = "[1, 2, 3, 4, 5]"
      and info = example_corrupt_info,
      THEN conjunct2, THEN conjunct2, THEN conjunct2, THEN conjunct2, THEN conjunct2,
      THEN conjunct2, THEN mp, OF h', THEN conjunct1]
  from kept unparsed crc have "fst (flashDfu example_corrupt example_state) = Inl (ErrorWritingFirmware CRCIsInvalid)
   \<and> fst (flashDfu example_corrupt example_forced) = Inr ()
   \<and> fst (flashDfu example_no_segments example_state)
       = Inl (ErrorWritingFirmware (SegmentError ''segment has no specs''))
   \<and> fst (flashDfu example_no_segments (example_state\<lparr>force := True\<rparr>))
       = Inl (ErrorWritingFirmware (SegmentError ''segment has no specs''))
   \<and> fst (flashDfu example_unparsable example_forced)
       = Inl (ErrorWritingFirmware
           (CouldNotParse (Some ''firmware.bin'') (External ModuleParser ''not a module'')))"
    by (simp add: example_no_segments_run)
  with continues show ?thesis
    by (simp only: simp_thms)
qed

end
